theory Spec2Isabelle
  imports Complex_Main "HOL-Library.AList"
begin

section \<open>Python values, dictionaries and exceptions\<close>

text \<open>
  The service receives JSON payloads; a feature value is one of Python's scalar or
  container values. A float is a real number (a finite double); a NaN is written out
  only where pandas produces one (a missing cell, see \<open>pyfloat\<close> below). An \<open>int\<close> is
  unbounded, and Python raises \<open>OverflowError\<close> when it has to turn an \<open>int\<close> beyond the
  range of the doubles into a float (see \<open>int_converts\<close> below).
\<close>

datatype pyval =
    PNone
  | PBool bool
  | PInt int
  | PFloat real
  | PStr string
  | PList "pyval list"
  | PDict "(string \<times> pyval) list"

text \<open>A \<open>dict\<close> with string keys, in insertion order; \<open>map_of\<close> is the lookup.\<close>

type_synonym pydict = "(string \<times> pyval) list"

text \<open>
  Exception classes. \<open>Subclass c n\<close> is a class named \<open>n\<close> derived from \<open>c\<close>
  (pydantic's \<open>ValidationError\<close> derives from \<open>ValueError\<close>); \<open>OtherException n\<close>
  is a class derived from \<open>Exception\<close> and from none of the named ones.
\<close>

datatype exn_class =
    ValueError
  | TypeError
  | KeyError
  | AttributeError
  | IndexError
  | OverflowError
  | Subclass exn_class string
  | OtherException string

datatype exn = Raised exn_class string

fun exn_cls :: "exn \<Rightarrow> exn_class" where
  "exn_cls (Raised c t) = c"

text \<open>\<open>isinstance(e, b)\<close> on classes: \<open>c\<close> is \<open>b\<close> or derives from it.\<close>

fun derives :: "exn_class \<Rightarrow> exn_class \<Rightarrow> bool" where
  "derives (Subclass p n) b = (Subclass p n = b \<or> derives p b)"
| "derives c b = (c = b)"

text \<open>Sequencing of a computation that may raise: the first exception wins.\<close>

fun try_bind :: "exn + 'a \<Rightarrow> ('a \<Rightarrow> exn + 'b) \<Rightarrow> exn + 'b" where
  "try_bind (Inl e) f = Inl e"
| "try_bind (Inr v) f = f v"

text \<open>
  \<open>isinstance(v, (int, float))\<close>, and the number such a value stands for in float
  arithmetic. \<open>bool\<close> is a subclass of \<open>int\<close> in Python: \<open>True\<close> is 1, \<open>False\<close> is 0.
\<close>

fun isinstance_int_float :: "pyval \<Rightarrow> bool" where
  "isinstance_int_float (PInt i) = True"
| "isinstance_int_float (PFloat r) = True"
| "isinstance_int_float (PBool b) = True"
| "isinstance_int_float v = False"

fun to_float :: "pyval \<Rightarrow> real" where
  "to_float (PInt i) = real_of_int i"
| "to_float (PFloat r) = r"
| "to_float (PBool b) = (if b then 1 else 0)"
| "to_float v = 0"

text \<open>
  \<open>float(i)\<close>, and every arithmetic operation between an \<open>int\<close> and a float, converts
  the \<open>int\<close> to the nearest double. The largest double is \<open>2^1024 - 2^971\<close>; an \<open>int\<close>
  converts when it rounds to a double, that is when its magnitude is below
  \<open>2^1024 - 2^970\<close>, and the conversion raises \<open>OverflowError\<close> otherwise.
\<close>

definition double_limit :: int where
  "double_limit = 2 ^ 1024 - 2 ^ 970"

definition int_converts :: "int \<Rightarrow> bool" where
  "int_converts i = (\<bar>i\<bar> < double_limit)"

definition overflow_error :: exn where
  "overflow_error = Raised OverflowError ''int too large to convert to float''"

section \<open>Data frames\<close>

text \<open>
  A float that may be NaN: pandas writes NaN into a missing cell of a numeric column.
  Every comparison with NaN is false; arithmetic on NaN gives NaN.
\<close>

datatype pyfloat = Fl real | NaN

fun fl_ge :: "pyfloat \<Rightarrow> real \<Rightarrow> bool" where
  "fl_ge (Fl x) c = (x \<ge> c)"
| "fl_ge NaN c = False"

text \<open>
  The scorer's arithmetic is double arithmetic: the result of every operation is rounded
  to the nearest double. The rounding is the parameter \<open>rnd\<close> of the scorer's functions.
\<close>

fun fl_div :: "(real \<Rightarrow> real) \<Rightarrow> pyfloat \<Rightarrow> real \<Rightarrow> pyfloat" where
  "fl_div rnd (Fl x) d = Fl (rnd (x / d))"
| "fl_div rnd NaN d = NaN"

fun fl_add :: "(real \<Rightarrow> real) \<Rightarrow> pyfloat \<Rightarrow> pyfloat \<Rightarrow> pyfloat" where
  "fl_add rnd (Fl x) (Fl y) = Fl (rnd (x + y))"
| "fl_add rnd a b = NaN"

text \<open>
  A pandas \<open>DataFrame\<close>: the names of its columns in their order, and the columns
  split by dtype: the columns of a numeric dtype (a subclass of \<open>np.number\<close>: the integer
  and float dtypes), whose cells are doubles or NaN, and the other columns (\<open>bool\<close> and
  \<open>object\<close>), whose cells are Python values, or the float NaN where the cell is missing.
  Every row holds one cell for each column.
\<close>

datatype cell = NumCell pyfloat | ObjCell pyval

record dataframe =
  columns :: "string list"
  number_columns :: "string list"
  other_columns :: "string list"
  rows :: "(pyfloat list \<times> cell list) list"

text \<open>One row as the \<open>Series\<close> that \<open>df.apply(f, axis=1)\<close> passes to \<open>f\<close>.\<close>

definition series_of_row :: "dataframe \<Rightarrow> pyfloat list \<times> cell list \<Rightarrow> (string \<times> cell) list" where
  "series_of_row df r =
     zip (number_columns df) (map NumCell (fst r)) @ zip (other_columns df) (snd r)"

text \<open>\<open>df.fillna(0)\<close>: NaN and \<open>None\<close> cells become 0.\<close>

fun fillna_float :: "pyfloat \<Rightarrow> pyfloat" where
  "fillna_float NaN = Fl 0"
| "fillna_float (Fl x) = Fl x"

fun fillna_cell :: "cell \<Rightarrow> cell" where
  "fillna_cell (NumCell x) = NumCell (fillna_float x)"
| "fillna_cell (ObjCell PNone) = ObjCell (PInt 0)"
| "fillna_cell (ObjCell v) = ObjCell v"

definition fillna :: "dataframe \<Rightarrow> dataframe" where
  "fillna df =
     df\<lparr>rows := map (\<lambda>r. (map fillna_float (fst r), map fillna_cell (snd r))) (rows df)\<rparr>"

text \<open>
  What the predictor accepts: a frame, or a numeric \<open>ndarray\<close> given by its rows (a
  one-dimensional array is one row).
\<close>

datatype table = Frame dataframe | Ndarray "real list list"

section \<open>PatientRiskScorer\<close>

text \<open>\<open>row.get(key, default)\<close>.\<close>

definition row_get :: "(string \<times> cell) list \<Rightarrow> string \<Rightarrow> cell \<Rightarrow> cell" where
  "row_get row k d = (case map_of row k of None \<Rightarrow> d | Some v \<Rightarrow> v)"

text \<open>
  \<open>v / d\<close> for a float constant \<open>d\<close>. A numeric cell and a Python float are doubles; an
  \<open>int\<close> (and a \<open>bool\<close>, which is an \<open>int\<close>) is converted first, which raises
  \<open>OverflowError\<close> when it is too large; anything else raises \<open>TypeError\<close>.
\<close>

fun truediv :: "(real \<Rightarrow> real) \<Rightarrow> cell \<Rightarrow> real \<Rightarrow> exn + pyfloat" where
  "truediv rnd (NumCell x) d = Inr (fl_div rnd x d)"
| "truediv rnd (ObjCell (PInt i)) d =
     (if int_converts i then Inr (fl_div rnd (Fl (rnd (real_of_int i))) d)
      else Inl overflow_error)"
| "truediv rnd (ObjCell (PBool b)) d = Inr (fl_div rnd (Fl (if b then 1 else 0)) d)"
| "truediv rnd (ObjCell (PFloat r)) d = Inr (fl_div rnd (Fl r) d)"
| "truediv rnd (ObjCell v) d = Inl (Raised TypeError ''unsupported operand type(s) for /'')"

text \<open>
  Python's \<open>min(1.0, x)\<close>: \<open>x\<close> if \<open>x < 1.0\<close>, else \<open>1.0\<close>; so NaN gives \<open>1.0\<close>.
\<close>

fun min_one :: "pyfloat \<Rightarrow> real" where
  "min_one (Fl x) = (if x < 1 then x else 1)"
| "min_one NaN = 1"

text \<open>\<open>df.apply(f, axis=1)\<close>: \<open>f\<close> on every row in order, stopping at the first raise.\<close>

fun apply_rows :: "('r \<Rightarrow> exn + real) \<Rightarrow> 'r list \<Rightarrow> exn + real list" where
  "apply_rows f [] = Inr []"
| "apply_rows f (row # rest) =
     try_bind (f row) (\<lambda>v. try_bind (apply_rows f rest) (\<lambda>vs. Inr (v # vs)))"

definition cardiovascular_row :: "(real \<Rightarrow> real) \<Rightarrow> (string \<times> cell) list \<Rightarrow> exn + real" where
  "cardiovascular_row rnd row =
     try_bind (truediv rnd (row_get row ''age'' (ObjCell (PInt 0))) 100) (\<lambda>a.
     try_bind (truediv rnd (row_get row ''cholesterol'' (ObjCell (PInt 0))) 500) (\<lambda>c.
     Inr (min_one (fl_add rnd a c))))"

definition diabetes_row :: "(real \<Rightarrow> real) \<Rightarrow> (string \<times> cell) list \<Rightarrow> exn + real" where
  "diabetes_row rnd row =
     try_bind (truediv rnd (row_get row ''glucose_level'' (ObjCell (PInt 0))) 300) (\<lambda>g.
     Inr (min_one g))"

definition readmission_row :: "(real \<Rightarrow> real) \<Rightarrow> (string \<times> cell) list \<Rightarrow> exn + real" where
  "readmission_row rnd row =
     try_bind (truediv rnd (row_get row ''previous_admissions'' (ObjCell (PInt 0))) 8) (\<lambda>p.
     Inr (min_one p))"

definition calculate_cardiovascular_risk :: "(real \<Rightarrow> real) \<Rightarrow> dataframe \<Rightarrow> exn + real list" where
  "calculate_cardiovascular_risk rnd df =
     apply_rows (\<lambda>r. cardiovascular_row rnd (series_of_row df r)) (rows df)"

definition calculate_diabetes_risk :: "(real \<Rightarrow> real) \<Rightarrow> dataframe \<Rightarrow> exn + real list" where
  "calculate_diabetes_risk rnd df =
     apply_rows (\<lambda>r. diabetes_row rnd (series_of_row df r)) (rows df)"

definition calculate_readmission_risk :: "(real \<Rightarrow> real) \<Rightarrow> dataframe \<Rightarrow> exn + real list" where
  "calculate_readmission_risk rnd df =
     apply_rows (\<lambda>r. readmission_row rnd (series_of_row df r)) (rows df)"

text \<open>
  \<open>(cv + di + rd) / 3.0\<close> on three series over the same index: two additions and a
  division, each rounded.
\<close>

fun mean3 :: "(real \<Rightarrow> real) \<Rightarrow> real list \<Rightarrow> real list \<Rightarrow> real list \<Rightarrow> real list" where
  "mean3 rnd (c # cv) (d # di) (r # rd) =
     rnd (rnd (rnd (c + d) + r) / 3) # mean3 rnd cv di rd"
| "mean3 rnd cv di rd = []"

definition calculate_composite_risk :: "(real \<Rightarrow> real) \<Rightarrow> dataframe \<Rightarrow> exn + real list" where
  "calculate_composite_risk rnd df =
     try_bind (calculate_cardiovascular_risk rnd df) (\<lambda>cv.
     try_bind (calculate_diabetes_risk rnd df) (\<lambda>di.
     try_bind (calculate_readmission_risk rnd df) (\<lambda>rd.
     Inr (mean3 rnd cv di rd))))"

text \<open>The loop of \<open>categorize_risk_levels\<close>, with \<open>cats\<close> as its accumulator.\<close>

fun categorize_loop :: "real list \<Rightarrow> string list \<Rightarrow> string list" where
  "categorize_loop [] cats = cats"
| "categorize_loop (s # seq) cats =
     categorize_loop seq
       (if s \<ge> 0.85 then cats @ [''CRITICAL'']
        else if s \<ge> 0.7 then cats @ [''HIGH'']
        else if s \<ge> 0.4 then cats @ [''MEDIUM'']
        else cats @ [''LOW''])"

definition categorize_risk_levels :: "real list \<Rightarrow> string list" where
  "categorize_risk_levels scores = categorize_loop scores []"

section \<open>NoShowPredictor\<close>

text \<open>
  The fitted \<open>LogisticRegression\<close> is opaque: it is the function from the array it is
  given to the column of positive-class probabilities, and it may raise.
\<close>

type_synonym backend = "table \<Rightarrow> exn + real list"

text \<open>\<open>numeric.mean(axis=1)\<close>: pandas skips NaN cells; a row of NaN cells only gives NaN.\<close>

fun finite_cells :: "pyfloat list \<Rightarrow> real list" where
  "finite_cells [] = []"
| "finite_cells (Fl x # cs) = x # finite_cells cs"
| "finite_cells (NaN # cs) = finite_cells cs"

definition row_mean_skipna :: "pyfloat list \<Rightarrow> pyfloat" where
  "row_mean_skipna cs =
     (let vs = finite_cells cs
      in if vs = [] then NaN else Fl (sum_list vs / real (length vs)))"

text \<open>\<open>arr.mean(axis=1)\<close> on a float array: the mean of an empty row is NaN.\<close>

definition array_row_mean :: "real list \<Rightarrow> pyfloat" where
  "array_row_mean xs = (if xs = [] then NaN else Fl (sum_list xs / real (length xs)))"

text \<open>\<open>1 / (1 + np.exp(- (v - 0.5)))\<close>, on a float and on an array element.\<close>

definition squash :: "real \<Rightarrow> real" where
  "squash v = 1 / (1 + exp (- (v - 0.5)))"

fun squash_fl :: "pyfloat \<Rightarrow> pyfloat" where
  "squash_fl (Fl v) = Fl (squash v)"
| "squash_fl NaN = NaN"

text \<open>The heuristic fallback of \<open>predict_proba\<close>: the array \<open>vals\<close>.\<close>

fun heuristic_vals :: "table \<Rightarrow> pyfloat list" where
  "heuristic_vals (Frame X) =
     (if length (number_columns X) = 0 then map (\<lambda>r. Fl 0) (rows X)
      else map (\<lambda>r. row_mean_skipna (fst r)) (rows X))"
| "heuristic_vals (Ndarray arr) = map array_row_mean arr"

fun to_array :: "table \<Rightarrow> table" where
  "to_array (Frame X) = Frame (fillna X)"
| "to_array (Ndarray arr) = Ndarray arr"

text \<open>
  \<open>predict_proba(self, X)\<close>; \<open>sklearn\<close> is the module flag \<open>SKLEARN_AVAILABLE\<close> and
  \<open>model\<close> the attribute \<open>self.model\<close>.
\<close>

definition predict_proba :: "bool \<Rightarrow> backend option \<Rightarrow> table \<Rightarrow> exn + pyfloat list" where
  "predict_proba sklearn model X =
     (case (if sklearn then model else None) of
        Some m \<Rightarrow> try_bind (m (to_array X)) (\<lambda>probs. Inr (map Fl probs))
      | None \<Rightarrow> Inr (map squash_fl (heuristic_vals X)))"

definition predict_proba_single :: "pydict \<Rightarrow> real" where
  "predict_proba_single x =
     (let vals = filter isinstance_int_float (map snd x)
      in if vals = [] then 0.1
         else let s = sum_list (map to_float vals) / real (length vals)
              in 1 / (1 + exp (- (s - 0.5))))"

text \<open>
  The definition above is the number \<open>predict_proba_single\<close> computes. The call itself
  raises where the number cannot be computed: \<open>sum(vals)\<close> adds from the left, starting
  from the \<open>int\<close> 0; the total is an exact \<open>int\<close> as long as it has met \<open>int\<close>s and
  \<open>bool\<close>s only and a float from the first float on. Adding a float to an \<open>int\<close> total,
  adding an \<open>int\<close> to a float total, and \<open>float(...)\<close> of an \<open>int\<close> total each convert
  the \<open>int\<close>, which raises \<open>OverflowError\<close> when it is too large.
\<close>

datatype total = IntTotal int | FloatTotal

fun sum_overflows :: "total \<Rightarrow> pyval list \<Rightarrow> bool" where
  "sum_overflows (IntTotal a) [] = (\<not> int_converts a)"
| "sum_overflows FloatTotal [] = False"
| "sum_overflows (IntTotal a) (PInt i # vs) = sum_overflows (IntTotal (a + i)) vs"
| "sum_overflows (IntTotal a) (PBool b # vs) =
     sum_overflows (IntTotal (a + (if b then 1 else 0))) vs"
| "sum_overflows (IntTotal a) (v # vs) = (\<not> int_converts a \<or> sum_overflows FloatTotal vs)"
| "sum_overflows FloatTotal (PInt i # vs) = (\<not> int_converts i \<or> sum_overflows FloatTotal vs)"
| "sum_overflows FloatTotal (v # vs) = sum_overflows FloatTotal vs"

definition predict_proba_single_call :: "pydict \<Rightarrow> exn + real" where
  "predict_proba_single_call x =
     (let vals = filter isinstance_int_float (map snd x)
      in if vals = [] then Inr 0.1
         else if sum_overflows (IntTotal 0) vals then Inl overflow_error
         else let s = sum_list (map to_float vals) / real (length vals)
              in Inr (1 / (1 + exp (- (s - 0.5)))))"

definition predict :: "bool \<Rightarrow> backend option \<Rightarrow> table \<Rightarrow> exn + int list" where
  "predict sklearn model X =
     try_bind (predict_proba sklearn model X) (\<lambda>probs.
     Inr (map (\<lambda>p. if fl_ge p 0.5 then 1 else 0) probs))"

text \<open>The dictionary a model's \<open>predict_batch\<close> returns; an absent key is \<open>None\<close>.\<close>

record batch_raw =
  raw_predictions :: "int list option"
  raw_probabilities :: "pyfloat list option"
  raw_risk_levels :: "string list option"
  raw_explanations :: "pyval list option"

definition predict_batch :: "bool \<Rightarrow> backend option \<Rightarrow> table \<Rightarrow> exn + batch_raw" where
  "predict_batch sklearn model X =
     try_bind (predict_proba sklearn model X) (\<lambda>probs.
     let preds = map (\<lambda>p. if fl_ge p 0.5 then 1 else 0) probs;
         risks = map (\<lambda>p. if fl_ge p 0.7 then ''HIGH''
                           else (if fl_ge p 0.4 then ''MEDIUM'' else ''LOW'')) probs;
         explanations = map (\<lambda>p. PNone) probs
     in Inr \<lparr>raw_predictions = Some preds, raw_probabilities = Some probs,
              raw_risk_levels = Some risks, raw_explanations = Some explanations\<rparr>)"

text \<open>\<open>f"f{i}"\<close>: the decimal digits of an index after the letter f.\<close>

function str_nat :: "nat \<Rightarrow> string" where
  "str_nat n =
     (if n < 10 then [char_of (48 + n)]
      else str_nat (n div 10) @ [char_of (48 + n mod 10)])"
  by pat_completeness auto
termination
  by (relation "measure (\<lambda>n. n)") auto

fun feature_names :: "table \<Rightarrow> string list" where
  "feature_names (Frame X) = columns X"
| "feature_names (Ndarray arr) =
     map (\<lambda>i. CHR ''f'' # str_nat i) [0 ..< (case arr of [] \<Rightarrow> 0 | r # _ \<Rightarrow> length r)]"

section \<open>Model objects and the ModelManager\<close>

text \<open>
  The objects the registry holds: instances of the two classes with their attributes,
  or whatever else \<open>joblib.load\<close> found on disk, of which the registry reads only the
  attribute \<open>is_trained\<close> (its truth value, when the object has one).
\<close>

datatype model_obj =
    NoShowPredictor "backend option" bool "string list"
  | PatientRiskScorer bool
  | ForeignObject "bool option"

text \<open>\<open>getattr(m, "is_trained", False)\<close>.\<close>

fun getattr_is_trained :: "model_obj \<Rightarrow> bool" where
  "getattr_is_trained (NoShowPredictor model is_trained feature_columns) = is_trained"
| "getattr_is_trained (PatientRiskScorer is_trained) = is_trained"
| "getattr_is_trained (ForeignObject None) = False"
| "getattr_is_trained (ForeignObject (Some is_trained)) = is_trained"

text \<open>
  What the registry's operations meet outside the process during one call: the file
  system, \<open>joblib\<close>, the clock, scikit-learn. \<open>joblib_load\<close> gives the unpickled object
  (\<open>None\<close> when the file held Python's \<open>None\<close>) or raises; \<open>joblib_dump\<close> names the
  exception of a failed write; \<open>fit_result\<close> is the fitted regression, or \<open>None\<close> when
  \<open>fit\<close> raised; \<open>baseline_error\<close> names an exception that escapes the baseline
  training of a model (raised by \<open>asyncio.to_thread\<close>, pandas or the constructor of
  the regression, all of which run before the registry is touched).
\<close>

record outside =
  path_exists :: "string \<Rightarrow> bool"
  joblib_load :: "string \<Rightarrow> exn + model_obj option"
  joblib_dump :: "string \<Rightarrow> exn option"
  utcnow :: string
  sklearn_available :: bool
  fit_result :: "backend option"
  baseline_error :: "string \<Rightarrow> exn option"

record model_manager =
  models :: "(string \<times> model_obj) list"
  model_metadata :: "(string \<times> (string \<times> string) list) list"

text \<open>\<open>ModelManager()\<close>: both dictionaries empty.\<close>

definition new_manager :: model_manager where
  "new_manager = \<lparr>models = [], model_metadata = []\<rparr>"

text \<open>\<open>self.model_metadata.setdefault(name, {})[key] = value\<close>.\<close>

definition metadata_stamp ::
  "string \<Rightarrow> string \<Rightarrow> string \<Rightarrow> (string \<times> (string \<times> string) list) list
     \<Rightarrow> (string \<times> (string \<times> string) list) list" where
  "metadata_stamp name key val md =
     (case map_of md name of
        None \<Rightarrow> AList.update name [(key, val)] md
      | Some entry \<Rightarrow> AList.update name (AList.update key val entry) md)"

text \<open>\<open>NoShowPredictor.train(X, y)\<close>, on a new or an existing predictor.\<close>

fun train :: "outside \<Rightarrow> table \<Rightarrow> model_obj \<Rightarrow> model_obj" where
  "train out X (NoShowPredictor model is_trained feature_columns) =
     NoShowPredictor (if sklearn_available out then fit_result out else None) True (feature_names X)"
| "train out X m = m"

definition save_model :: "outside \<Rightarrow> string \<Rightarrow> model_obj \<Rightarrow> model_manager \<Rightarrow> model_manager" where
  "save_model out model_name model mgr =
     (case joblib_dump out model_name of
        None \<Rightarrow> mgr\<lparr>model_metadata :=
                  metadata_stamp model_name ''saved_at'' (utcnow out) (model_metadata mgr)\<rparr>
      | Some e \<Rightarrow> mgr)"

definition load_model_from_disk :: "outside \<Rightarrow> string \<Rightarrow> model_obj option" where
  "load_model_from_disk out model_name =
     (if path_exists out model_name then
        (case joblib_load out model_name of
           Inr obj \<Rightarrow> obj
         | Inl e \<Rightarrow> None)
      else None)"

text \<open>The synthetic training frame of the no-show baseline.\<close>

definition baseline_frame :: dataframe where
  "baseline_frame =
     \<lparr>columns = [''patient_age'', ''previous_no_shows'', ''appointment_hour''],
      number_columns = [''patient_age'', ''previous_no_shows'', ''appointment_hour''],
      other_columns = [],
      rows = [([Fl 30, Fl 0, Fl 9], []), ([Fl 45, Fl 1, Fl 14], []),
              ([Fl 60, Fl 2, Fl 16], []), ([Fl 22, Fl 0, Fl 11], [])]\<rparr>"

definition train_baseline_model ::
  "outside \<Rightarrow> string \<Rightarrow> model_manager \<Rightarrow> exn + model_manager" where
  "train_baseline_model out model_name mgr =
     (case baseline_error out model_name of
        Some e \<Rightarrow> Inl e
      | None \<Rightarrow>
          if model_name = ''no_show_predictor'' then
            (let model = train out (Frame baseline_frame) (NoShowPredictor None False []);
                 mgr1 = mgr\<lparr>models := AList.update model_name model (models mgr)\<rparr>
             in Inr (save_model out model_name model mgr1))
          else if model_name = ''risk_scorer'' then
            (let model = PatientRiskScorer True;
                 mgr1 = mgr\<lparr>models := AList.update model_name model (models mgr)\<rparr>
             in Inr (save_model out model_name model mgr1))
          else Inr mgr)"

text \<open>The loop of \<open>initialize\<close> over the names the registry held when the loop began.\<close>

fun initialize_loop :: "outside \<Rightarrow> string list \<Rightarrow> model_manager \<Rightarrow> model_manager" where
  "initialize_loop out [] mgr = mgr"
| "initialize_loop out (name # names) mgr =
     initialize_loop out names
       (case load_model_from_disk out name of
          Some loaded \<Rightarrow>
            mgr\<lparr>models := AList.update name loaded (models mgr),
                model_metadata := AList.update name
                  [(''loaded_from'', ''disk''), (''load_time'', utcnow out)] (model_metadata mgr)\<rparr>
        | None \<Rightarrow>
            (case train_baseline_model out name mgr of
               Inr mgr1 \<Rightarrow>
                 mgr1\<lparr>model_metadata := AList.update name
                   [(''loaded_from'', ''baseline''), (''load_time'', utcnow out)]
                   (model_metadata mgr1)\<rparr>
             | Inl e \<Rightarrow> mgr))"

definition initialize :: "outside \<Rightarrow> model_manager \<Rightarrow> model_manager" where
  "initialize out mgr =
     (let mgr1 = mgr\<lparr>models :=
            AList.update ''no_show_predictor'' (NoShowPredictor None False []) (models mgr)\<rparr>;
          mgr2 = mgr1\<lparr>models :=
            AList.update ''risk_scorer'' (PatientRiskScorer True) (models mgr1)\<rparr>
      in initialize_loop out (map fst (models mgr2)) mgr2)"

text \<open>The loop of \<open>health_check\<close> over the required names, leaving at the first failure.\<close>

fun health_check_loop :: "(string \<times> model_obj) list \<Rightarrow> string list \<Rightarrow> bool" where
  "health_check_loop ms [] = True"
| "health_check_loop ms (name # required) =
     (case map_of ms name of
        None \<Rightarrow> False
      | Some m \<Rightarrow> if \<not> getattr_is_trained m then False else health_check_loop ms required)"

definition health_check :: "model_manager \<Rightarrow> bool" where
  "health_check mgr = health_check_loop (models mgr) [''no_show_predictor'', ''risk_scorer'']"

definition get_loaded_models :: "model_manager \<Rightarrow> string list" where
  "get_loaded_models mgr = map fst (models mgr)"







section \<open>Prediction endpoints\<close>

text \<open>
  The endpoints probe the model they are given with \<open>hasattr\<close> and \<open>getattr\<close>: a model
  is the table of the methods and attributes it has (\<open>None\<close> for one it lacks). A call
  returns or raises.
\<close>

record model_iface =
  predict_proba_single_m :: "(pydict \<Rightarrow> exn + pyfloat) option"
  predict_proba_m :: "(dataframe \<Rightarrow> exn + pyfloat list) option"
  predict_m :: "(dataframe \<Rightarrow> exn + int list) option"
  predict_batch_m :: "(dataframe \<Rightarrow> exn + batch_raw) option"
  calculate_composite_risk_m :: "(dataframe \<Rightarrow> exn + real list) option"
  categorize_risk_levels_m :: "(real list \<Rightarrow> exn + string list) option"
  explain_factors_m :: "(pydict \<Rightarrow> exn + string list) option"
  last_confidence :: "real option"

text \<open>The methods of the two classes of this repository.\<close>

definition no_show_predictor_methods :: "bool \<Rightarrow> backend option \<Rightarrow> model_iface" where
  "no_show_predictor_methods sklearn model =
     \<lparr>predict_proba_single_m =
        Some (\<lambda>x. try_bind (predict_proba_single_call x) (\<lambda>p. Inr (Fl p))),
      predict_proba_m = Some (\<lambda>df. predict_proba sklearn model (Frame df)),
      predict_m = Some (\<lambda>df. predict sklearn model (Frame df)),
      predict_batch_m = Some (\<lambda>df. predict_batch sklearn model (Frame df)),
      calculate_composite_risk_m = None,
      categorize_risk_levels_m = None,
      explain_factors_m = None,
      last_confidence = None\<rparr>"

definition patient_risk_scorer_methods :: "(real \<Rightarrow> real) \<Rightarrow> model_iface" where
  "patient_risk_scorer_methods rnd =
     \<lparr>predict_proba_single_m = None,
      predict_proba_m = None,
      predict_m = None,
      predict_batch_m = None,
      calculate_composite_risk_m = Some (calculate_composite_risk rnd),
      categorize_risk_levels_m = Some (\<lambda>scores. Inr (categorize_risk_levels scores)),
      explain_factors_m = None,
      last_confidence = None\<rparr>"

text \<open>
  What an endpoint does: it returns a response, raises an \<open>HTTPException\<close> with a
  status and a detail, or lets an exception escape. \<open>client_view\<close> is what the handlers
  of the application make of it: the status and, for an error, the body's message.
\<close>

datatype 'a outcome = Returned 'a | HTTPException nat string | Escaped exn

fun client_view :: "'a outcome \<Rightarrow> nat \<times> (string + 'a)" where
  "client_view (Returned r) = (200, Inr r)"
| "client_view (HTTPException status detail) = (status, Inl detail)"
| "client_view (Escaped e) = (500, Inl ''Internal server error'')"

record appointment_features =
  patient_age :: "int option"
  previous_no_shows :: "int option"
  appointment_lead_time :: "int option"
  day_of_week :: "string option"
  is_weekend :: "bool option"
  referral_source :: "string option"
  extra :: "pydict option"

record no_show_request =
  appointment_id :: "int option"
  patient_id :: int
  appointment_data :: appointment_features

record no_show_response =
  prediction :: int
  probability :: real
  risk_level :: string
  confidence :: "real option"
  factors :: "string list option"

record risk_score_request =
  rs_patient_id :: int
  patient_data :: pydict

record risk_score_response =
  risk_score :: real
  rs_risk_level :: string
  rs_confidence :: "real option"
  rs_factors :: "string list option"

record batch_request =
  model_name :: string
  batch_data :: "pydict list"

record batch_response =
  predictions :: "int list"
  probabilities :: "pyfloat list option"
  risk_levels :: "string list option"
  explanations :: "pyval list option"

text \<open>\<open>payload.appointment_data.dict()\<close>.\<close>

definition opt_val :: "('a \<Rightarrow> pyval) \<Rightarrow> 'a option \<Rightarrow> pyval" where
  "opt_val f v = (case v of None \<Rightarrow> PNone | Some x \<Rightarrow> f x)"

definition appointment_dict :: "appointment_features \<Rightarrow> pydict" where
  "appointment_dict a =
     [(''patient_age'', opt_val PInt (patient_age a)),
      (''previous_no_shows'', opt_val PInt (previous_no_shows a)),
      (''appointment_lead_time'', opt_val PInt (appointment_lead_time a)),
      (''day_of_week'', opt_val PStr (day_of_week a)),
      (''is_weekend'', opt_val PBool (is_weekend a)),
      (''referral_source'', opt_val PStr (referral_source a)),
      (''extra'', opt_val PDict (extra a))]"

definition setdefault :: "string \<Rightarrow> pyval \<Rightarrow> pydict \<Rightarrow> pydict" where
  "setdefault k v d = (case map_of d k of None \<Rightarrow> d @ [(k, v)] | Some w \<Rightarrow> d)"

text \<open>The dictionary \<open>data\<close> of \<open>predict_no_show\<close>, enriched with the truthy identifiers.\<close>

definition no_show_data :: "no_show_request \<Rightarrow> pydict" where
  "no_show_data payload =
     (let data = appointment_dict (appointment_data payload);
          data1 = (if patient_id payload \<noteq> 0
                   then setdefault ''patient_id'' (PInt (patient_id payload)) data else data)
      in (case appointment_id payload of
            None \<Rightarrow> data1
          | Some i \<Rightarrow> if i \<noteq> 0 then setdefault ''appointment_id'' (PInt i) data1 else data1))"

text \<open>\<open>xs[0]\<close> and \<open>.iloc[0]\<close>.\<close>

definition first_item :: "'a list \<Rightarrow> exn + 'a" where
  "first_item xs =
     (case xs of [] \<Rightarrow> Inl (Raised IndexError ''index out of range'') | x # rest \<Rightarrow> Inr x)"

text \<open>
  \<open>getattr(model, "explain_factors", ...)(data) if hasattr(model, "explain_factors")
  else None\<close>.
\<close>

definition explain :: "model_iface \<Rightarrow> pydict \<Rightarrow> exn + string list option" where
  "explain model data =
     (case explain_factors_m model of
        None \<Rightarrow> Inr None
      | Some f \<Rightarrow> try_bind (f data) (\<lambda>fs. Inr (Some fs)))"

text \<open>
  The constructor of \<open>NoShowPredictionResponse\<close>: \<open>probability\<close> is declared with
  \<open>ge=0.0, le=1.0\<close>, and pydantic's \<open>ValidationError\<close> is a \<open>ValueError\<close>.
\<close>

definition NoShowPredictionResponse ::
  "int \<Rightarrow> pyfloat \<Rightarrow> string \<Rightarrow> real option \<Rightarrow> string list option \<Rightarrow> exn + no_show_response" where
  "NoShowPredictionResponse label prob risk conf facs =
     (case prob of
        Fl p \<Rightarrow>
          if 0 \<le> p \<and> p \<le> 1 then
            Inr \<lparr>prediction = label, probability = p, risk_level = risk,
                 confidence = conf, factors = facs\<rparr>
          else Inl (Raised (Subclass ValueError ''ValidationError'') ''probability'')
      | NaN \<Rightarrow> Inl (Raised (Subclass ValueError ''ValidationError'') ''probability''))"

text \<open>
  The \<open>try\<close> block of \<open>predict_no_show\<close>. \<open>pd_DataFrame\<close> is pandas' constructor of a
  frame from a list of records, which may raise.
\<close>

definition no_show_try ::
  "(pydict list \<Rightarrow> exn + dataframe) \<Rightarrow> model_iface \<Rightarrow> pydict \<Rightarrow> exn + no_show_response" where
  "no_show_try pd_DataFrame model data =
     try_bind
       (case predict_proba_single_m model of
          Some f \<Rightarrow> f data
        | None \<Rightarrow>
            (case predict_proba_m model of
               None \<Rightarrow> Inl (Raised AttributeError ''predict_proba'')
             | Some g \<Rightarrow>
                 try_bind (pd_DataFrame [data]) (\<lambda>df.
                 try_bind (g df) first_item)))
       (\<lambda>prob.
          let label = (if fl_ge prob 0.5 then 1 else 0);
              risk = (if fl_ge prob 0.7 then ''HIGH''
                      else (if fl_ge prob 0.4 then ''MEDIUM'' else ''LOW''))
          in try_bind (explain model data) (\<lambda>facs.
             NoShowPredictionResponse label prob risk (last_confidence model) facs))"

text \<open>
  An endpoint is given the \<open>get_model\<close> of the manager on the application state (\<open>None\<close>
  when there is no manager). Logging is left out: \<open>log_exception\<close> never raises.
\<close>

definition predict_no_show ::
  "(pydict list \<Rightarrow> exn + dataframe) \<Rightarrow> (string \<Rightarrow> exn + model_iface) option
     \<Rightarrow> no_show_request \<Rightarrow> no_show_response outcome" where
  "predict_no_show pd_DataFrame manager payload =
     (case manager of
        None \<Rightarrow> HTTPException 503 ''Model manager not available''
      | Some get \<Rightarrow>
          (case get ''no_show_predictor'' of
             Inl e \<Rightarrow>
               if derives (exn_cls e) KeyError then HTTPException 404 ''Model not found''
               else Escaped e
           | Inr model \<Rightarrow>
               (case no_show_try pd_DataFrame model (no_show_data payload) of
                  Inr response \<Rightarrow> Returned response
                | Inl e \<Rightarrow>
                    if derives (exn_cls e) ValueError \<or> derives (exn_cls e) TypeError
                    then HTTPException 400 ''Invalid input''
                    else HTTPException 500 ''Prediction failed'')))"

text \<open>The \<open>try\<close> block of \<open>predict_risk\<close>.\<close>

definition risk_try ::
  "(pydict list \<Rightarrow> exn + dataframe) \<Rightarrow> model_iface \<Rightarrow> pydict \<Rightarrow> exn + risk_score_response" where
  "risk_try pd_DataFrame model pdata =
     try_bind (pd_DataFrame [pdata]) (\<lambda>df.
     try_bind
       (case calculate_composite_risk_m model of
          None \<Rightarrow> Inl (Raised AttributeError ''calculate_composite_risk'')
        | Some f \<Rightarrow> try_bind (f df) first_item)
       (\<lambda>score.
     try_bind
       (case categorize_risk_levels_m model of
          None \<Rightarrow> Inr ''UNKNOWN''
        | Some c \<Rightarrow> try_bind (c [score]) first_item)
       (\<lambda>level.
     try_bind (explain model pdata) (\<lambda>facs.
     Inr \<lparr>risk_score = score, rs_risk_level = level,
          rs_confidence = last_confidence model, rs_factors = facs\<rparr>))))"

definition predict_risk ::
  "(pydict list \<Rightarrow> exn + dataframe) \<Rightarrow> (string \<Rightarrow> exn + model_iface) option
     \<Rightarrow> risk_score_request \<Rightarrow> risk_score_response outcome" where
  "predict_risk pd_DataFrame manager payload =
     (case manager of
        None \<Rightarrow> HTTPException 503 ''Model manager not available''
      | Some get \<Rightarrow>
          (case get ''risk_scorer'' of
             Inl e \<Rightarrow>
               if derives (exn_cls e) KeyError then HTTPException 404 ''Model not found''
               else Escaped e
           | Inr model \<Rightarrow>
               (case risk_try pd_DataFrame model (patient_data payload) of
                  Inr response \<Rightarrow> Returned response
                | Inl e \<Rightarrow>
                    if derives (exn_cls e) ValueError \<or> derives (exn_cls e) TypeError
                    then HTTPException 400 ''Invalid input''
                    else HTTPException 500 ''Prediction failed'')))"

text \<open>
  The \<open>try\<close> block of \<open>predict_batch\<close>: the model's own batch method when it has one,
  else \<open>predict\<close> and, when there is one, \<open>predict_proba\<close>.
\<close>

definition batch_try ::
  "(pydict list \<Rightarrow> exn + dataframe) \<Rightarrow> model_iface \<Rightarrow> pydict list \<Rightarrow> exn + batch_response" where
  "batch_try pd_DataFrame model recs =
     try_bind (pd_DataFrame recs) (\<lambda>df.
       case predict_batch_m model of
         Some pb \<Rightarrow>
           try_bind (pb df) (\<lambda>raw.
             Inr \<lparr>predictions = (case raw_predictions raw of None \<Rightarrow> [] | Some ps \<Rightarrow> ps),
                  probabilities = raw_probabilities raw,
                  risk_levels = raw_risk_levels raw,
                  explanations = raw_explanations raw\<rparr>)
       | None \<Rightarrow>
           try_bind
             (case predict_m model of
                None \<Rightarrow> Inl (Raised AttributeError ''predict'')
              | Some f \<Rightarrow> f df)
             (\<lambda>preds.
           try_bind
             (case predict_proba_m model of
                None \<Rightarrow> Inr None
              | Some g \<Rightarrow> try_bind (g df) (\<lambda>probs. Inr (Some probs)))
             (\<lambda>probs.
           Inr \<lparr>predictions = preds, probabilities = probs,
                risk_levels = None, explanations = None\<rparr>)))"

definition predict_batch_endpoint ::
  "(pydict list \<Rightarrow> exn + dataframe) \<Rightarrow> (string \<Rightarrow> exn + model_iface) option
     \<Rightarrow> batch_request \<Rightarrow> batch_response outcome" where
  "predict_batch_endpoint pd_DataFrame manager payload =
     (case manager of
        None \<Rightarrow> HTTPException 503 ''Model manager not available''
      | Some get \<Rightarrow>
          (case get (model_name payload) of
             Inl e \<Rightarrow>
               if derives (exn_cls e) KeyError then HTTPException 404 ''Model not found''
               else Escaped e
           | Inr model \<Rightarrow>
               (case batch_try pd_DataFrame model (batch_data payload) of
                  Inr response \<Rightarrow> Returned response
                | Inl e \<Rightarrow>
                    if derives (exn_cls e) ValueError \<or> derives (exn_cls e) TypeError
                    then HTTPException 400 ''Invalid input''
                    else HTTPException 500 ''Prediction failed'')))"

section \<open>The vocabulary of the specification\<close>

subsection \<open>Risk scorer\<close>

text \<open>
  What is used of the rounding to the nearest double: it is monotone, and it leaves an
  integer of magnitude up to \<open>2^53\<close>, which is a double, as it is. The identity, exact
  arithmetic, is such a function.
\<close>

definition is_rounding :: "(real \<Rightarrow> real) \<Rightarrow> bool" where
  "is_rounding rnd =
     (mono rnd \<and> (\<forall>i :: int. \<bar>i\<bar> \<le> 2 ^ 53 \<longrightarrow> rnd (real_of_int i) = real_of_int i))"

text \<open>
  A cell the scorer can divide: a numeric cell (a double, or NaN when the cell is
  missing), a Python float or \<open>bool\<close>, or an \<open>int\<close> within the range of the doubles.
\<close>

fun cell_scorable :: "cell \<Rightarrow> bool" where
  "cell_scorable (NumCell x) = True"
| "cell_scorable (ObjCell (PInt i)) = int_converts i"
| "cell_scorable (ObjCell (PBool b)) = True"
| "cell_scorable (ObjCell (PFloat r)) = True"
| "cell_scorable (ObjCell v) = False"

text \<open>
  A field of a row is scorable when it is such a cell or when the frame has no column
  of that name; a frame is scorable when the four fields of every row are.
\<close>

definition field_scorable :: "(string \<times> cell) list \<Rightarrow> string \<Rightarrow> bool" where
  "field_scorable row k = (case map_of row k of None \<Rightarrow> True | Some c \<Rightarrow> cell_scorable c)"

definition scorer_fields_scorable :: "(string \<times> cell) list \<Rightarrow> bool" where
  "scorer_fields_scorable row =
     (field_scorable row ''age'' \<and> field_scorable row ''cholesterol'' \<and>
      field_scorable row ''glucose_level'' \<and> field_scorable row ''previous_admissions'')"

definition frame_scorable :: "dataframe \<Rightarrow> bool" where
  "frame_scorable df = list_all (\<lambda>r. scorer_fields_scorable (series_of_row df r)) (rows df)"

text \<open>The double in a cell: NaN for a missing cell, the converted \<open>int\<close> for an \<open>int\<close>.\<close>

fun cell_double :: "(real \<Rightarrow> real) \<Rightarrow> cell \<Rightarrow> pyfloat" where
  "cell_double rnd (NumCell x) = x"
| "cell_double rnd (ObjCell (PInt i)) = Fl (rnd (real_of_int i))"
| "cell_double rnd (ObjCell (PBool b)) = Fl (if b then 1 else 0)"
| "cell_double rnd (ObjCell (PFloat r)) = Fl r"
| "cell_double rnd (ObjCell v) = NaN"

text \<open>The value of a field, with 0 for a field that is not a column of the frame.\<close>

definition field_double :: "(real \<Rightarrow> real) \<Rightarrow> (string \<times> cell) list \<Rightarrow> string \<Rightarrow> pyfloat" where
  "field_double rnd row k =
     (case map_of row k of None \<Rightarrow> Fl 0 | Some c \<Rightarrow> cell_double rnd c)"

text \<open>
  The three sub-scores and the composite score, as the specification writes them, in
  double arithmetic; a sub-score that reads a missing cell is 1.
\<close>

definition spec_cardiovascular :: "(real \<Rightarrow> real) \<Rightarrow> (string \<times> cell) list \<Rightarrow> real" where
  "spec_cardiovascular rnd row =
     (case field_double rnd row ''age'' of
        NaN \<Rightarrow> 1
      | Fl age \<Rightarrow>
          (case field_double rnd row ''cholesterol'' of
             NaN \<Rightarrow> 1
           | Fl cholesterol \<Rightarrow> min 1 (rnd (rnd (age / 100) + rnd (cholesterol / 500)))))"

definition spec_diabetes :: "(real \<Rightarrow> real) \<Rightarrow> (string \<times> cell) list \<Rightarrow> real" where
  "spec_diabetes rnd row =
     (case field_double rnd row ''glucose_level'' of
        NaN \<Rightarrow> 1
      | Fl glucose_level \<Rightarrow> min 1 (rnd (glucose_level / 300)))"

definition spec_readmission :: "(real \<Rightarrow> real) \<Rightarrow> (string \<times> cell) list \<Rightarrow> real" where
  "spec_readmission rnd row =
     (case field_double rnd row ''previous_admissions'' of
        NaN \<Rightarrow> 1
      | Fl previous_admissions \<Rightarrow> min 1 (rnd (previous_admissions / 8)))"

definition spec_composite :: "(real \<Rightarrow> real) \<Rightarrow> (string \<times> cell) list \<Rightarrow> real" where
  "spec_composite rnd row =
     rnd (rnd (rnd (spec_cardiovascular rnd row + spec_diabetes rnd row)
               + spec_readmission rnd row) / 3)"



text \<open>No field of the row is a negative number.\<close>

fun cell_nonneg :: "cell \<Rightarrow> bool" where
  "cell_nonneg (NumCell (Fl x)) = (0 \<le> x)"
| "cell_nonneg (ObjCell (PInt i)) = (0 \<le> i)"
| "cell_nonneg (ObjCell (PFloat r)) = (0 \<le> r)"
| "cell_nonneg c = True"

definition field_nonneg :: "(string \<times> cell) list \<Rightarrow> string \<Rightarrow> bool" where
  "field_nonneg row k = (case map_of row k of None \<Rightarrow> True | Some c \<Rightarrow> cell_nonneg c)"

definition scorer_fields_nonneg :: "(string \<times> cell) list \<Rightarrow> bool" where
  "scorer_fields_nonneg row =
     (field_nonneg row ''age'' \<and> field_nonneg row ''cholesterol'' \<and>
      field_nonneg row ''glucose_level'' \<and> field_nonneg row ''previous_admissions'')"

text \<open>The exception is a \<open>TypeError\<close> or an \<open>OverflowError\<close>.\<close>

definition type_or_overflow :: "exn \<Rightarrow> bool" where
  "type_or_overflow e = (exn_cls e = TypeError \<or> exn_cls e = OverflowError)"

text \<open>The four-level scale of the scorer, score by score.\<close>

definition bucket4 :: "real \<Rightarrow> string" where
  "bucket4 s =
     (if s \<ge> 0.85 then ''CRITICAL''
      else if s \<ge> 0.7 then ''HIGH''
      else if s \<ge> 0.4 then ''MEDIUM''
      else ''LOW'')"

text \<open>
  Sample frames: the frames of the records \<open>{"age": -300}\<close>,
  \<open>{"age": 50, "cholesterol": 125, "smoker": True}\<close> and \<open>{"age": 10**400}\<close>, and the
  frame of the two records \<open>{"age": 50}\<close> and \<open>{"glucose_level": 150}\<close>, in which each row
  has a missing cell.
\<close>

definition negative_age_frame :: dataframe where
  "negative_age_frame =
     \<lparr>columns = [''age''], number_columns = [''age''], other_columns = [],
      rows = [([Fl (- 300)], [])]\<rparr>"

definition sample_patient_frame :: dataframe where
  "sample_patient_frame =
     \<lparr>columns = [''age'', ''cholesterol'', ''smoker''],
      number_columns = [''age'', ''cholesterol''], other_columns = [''smoker''],
      rows = [([Fl 50, Fl 125], [ObjCell (PBool True)])]\<rparr>"

definition huge_age_frame :: dataframe where
  "huge_age_frame =
     \<lparr>columns = [''age''], number_columns = [], other_columns = [''age''],
      rows = [([], [ObjCell (PInt (10 ^ 400))])]\<rparr>"


subsection \<open>No-show predictor\<close>




text \<open>
  Sample inputs: a fitted regression that answers with the three boundary
  probabilities, a frame of three rows, a model whose single-record method answers
  with a fixed probability, the request of the repository's tests, and a frame
  constructor that raises.
\<close>

definition boundary_backend :: backend where
  "boundary_backend = (\<lambda>X. Inr [0.7, 0.4, 0.39999])"

definition three_row_frame :: dataframe where
  "three_row_frame =
     \<lparr>columns = [''x''], number_columns = [''x''], other_columns = [],
      rows = [([Fl 1], []), ([Fl 2], []), ([NaN], [])]\<rparr>"

definition fixed_probability_model :: "real \<Rightarrow> model_iface" where
  "fixed_probability_model p =
     \<lparr>predict_proba_single_m = Some (\<lambda>x. Inr (Fl p)),
      predict_proba_m = None, predict_m = None, predict_batch_m = None,
      calculate_composite_risk_m = None, categorize_risk_levels_m = None,
      explain_factors_m = None, last_confidence = None\<rparr>"

definition sample_request :: no_show_request where
  "sample_request =
     \<lparr>appointment_id = None, patient_id = 2001,
      appointment_data =
        \<lparr>patient_age = Some 54, previous_no_shows = Some 2, appointment_lead_time = Some 3,
         day_of_week = Some ''Mon'', is_weekend = Some False, referral_source = Some ''GP'',
         extra = None\<rparr>\<rparr>"

definition no_frames :: "pydict list \<Rightarrow> exn + dataframe" where
  "no_frames recs = Inl (Raised ValueError ''no frame'')"

text \<open>
  The values of a record by kind, as the specification's data model names the scalars:
  the numbers (\<open>int\<close> and \<open>float\<close>) and the booleans.
\<close>

fun number_values :: "pyval list \<Rightarrow> real list" where
  "number_values [] = []"
| "number_values (PInt i # vs) = real_of_int i # number_values vs"
| "number_values (PFloat r # vs) = r # number_values vs"
| "number_values (v # vs) = number_values vs"

fun bool_values :: "pyval list \<Rightarrow> bool list" where
  "bool_values [] = []"
| "bool_values (PBool b # vs) = b # bool_values vs"
| "bool_values (v # vs) = bool_values vs"


definition count_true :: "bool list \<Rightarrow> nat" where
  "count_true bs = length (filter (\<lambda>b. b) bs)"


fun is_bool :: "pyval \<Rightarrow> bool" where
  "is_bool (PBool b) = True"
| "is_bool v = False"










definition flags_record :: pydict where
  "flags_record = [(''is_weekend'', PBool False), (''is_urgent'', PBool False)]"


subsection \<open>Registry\<close>

text \<open>A required model resolves to a model that is present and whose trained flag is true.\<close>

definition present_and_trained :: "model_manager \<Rightarrow> string \<Rightarrow> bool" where
  "present_and_trained mgr name =
     (case map_of (models mgr) name of None \<Rightarrow> False | Some m \<Rightarrow> getattr_is_trained m)"




text \<open>
  Sample surroundings: an empty disk on which every write succeeds, with baseline
  training that works, and the same with baseline training that raises.
\<close>

definition working_outside :: outside where
  "working_outside =
     \<lparr>path_exists = (\<lambda>name. False),
      joblib_load = (\<lambda>name. Inr None),
      joblib_dump = (\<lambda>name. None),
      utcnow = ''2024-01-01T00:00:00'',
      sklearn_available = False,
      fit_result = None,
      baseline_error = (\<lambda>name. None)\<rparr>"

definition failing_outside :: outside where
  "failing_outside =
     working_outside\<lparr>baseline_error :=
       (\<lambda>name. Some (Raised (OtherException ''RuntimeError'') ''training failed''))\<rparr>"

subsection \<open>Error mapping of the endpoints\<close>

text \<open>
  The status and the client-facing message for an exception raised during prediction:
  they depend on the class of the exception only.
\<close>

definition sanitized :: "exn_class \<Rightarrow> nat \<times> string" where
  "sanitized c =
     (if derives c ValueError \<or> derives c TypeError then (400, ''Invalid input'')
      else (500, ''Prediction failed''))"

text \<open>The prediction computation of the resolved model raises \<open>e\<close>, endpoint by endpoint.\<close>

definition no_show_prediction_raises ::
  "(pydict list \<Rightarrow> exn + dataframe) \<Rightarrow> model_iface \<Rightarrow> pydict \<Rightarrow> exn \<Rightarrow> bool" where
  "no_show_prediction_raises pd_DataFrame model data e =
     (case predict_proba_single_m model of
        Some f \<Rightarrow> f data = Inl e
      | None \<Rightarrow>
          (case predict_proba_m model of
             None \<Rightarrow> False
           | Some g \<Rightarrow>
               (case pd_DataFrame [data] of Inl e1 \<Rightarrow> False | Inr df \<Rightarrow> g df = Inl e)))"

definition risk_prediction_raises ::
  "(pydict list \<Rightarrow> exn + dataframe) \<Rightarrow> model_iface \<Rightarrow> pydict \<Rightarrow> exn \<Rightarrow> bool" where
  "risk_prediction_raises pd_DataFrame model pdata e =
     (case pd_DataFrame [pdata] of
        Inl e1 \<Rightarrow> False
      | Inr df \<Rightarrow>
          (case calculate_composite_risk_m model of
             None \<Rightarrow> False
           | Some f \<Rightarrow> f df = Inl e))"

definition batch_prediction_raises ::
  "(pydict list \<Rightarrow> exn + dataframe) \<Rightarrow> model_iface \<Rightarrow> pydict list \<Rightarrow> exn \<Rightarrow> bool" where
  "batch_prediction_raises pd_DataFrame model recs e =
     (case pd_DataFrame recs of
        Inl e1 \<Rightarrow> False
      | Inr df \<Rightarrow>
          (case predict_batch_m model of
             Some pb \<Rightarrow> pb df = Inl e
           | None \<Rightarrow>
               (case predict_m model of
                  None \<Rightarrow> False
                | Some f \<Rightarrow>
                    (case f df of
                       Inl e1 \<Rightarrow> e1 = e
                     | Inr preds \<Rightarrow>
                         (case predict_proba_m model of
                            None \<Rightarrow> False
                          | Some g \<Rightarrow> g df = Inl e)))))"

text \<open>
  Sample models: the models of the repository's tests, whose single-record method
  raises, and models whose scoring and batch methods raise; a frame constructor that
  answers with the sample frame.
\<close>

definition no_methods :: model_iface where
  "no_methods =
     \<lparr>predict_proba_single_m = None, predict_proba_m = None, predict_m = None,
      predict_batch_m = None, calculate_composite_risk_m = None,
      categorize_risk_levels_m = None, explain_factors_m = None, last_confidence = None\<rparr>"

definition single_raises :: "exn \<Rightarrow> model_iface" where
  "single_raises e = no_methods\<lparr>predict_proba_single_m := Some (\<lambda>x. Inl e)\<rparr>"

definition scoring_raises :: "exn \<Rightarrow> model_iface" where
  "scoring_raises e = no_methods\<lparr>calculate_composite_risk_m := Some (\<lambda>df. Inl e)\<rparr>"

definition batch_raises :: "exn \<Rightarrow> model_iface" where
  "batch_raises e = no_methods\<lparr>predict_batch_m := Some (\<lambda>df. Inl e)\<rparr>"

definition sample_frames :: "pydict list \<Rightarrow> exn + dataframe" where
  "sample_frames recs = Inr sample_patient_frame"

text \<open>What the client sees of an exception raised during prediction.\<close>

definition error_view :: "exn \<Rightarrow> nat \<times> (string + 'a)" where
  "error_view e = (fst (sanitized (exn_cls e)), Inl (snd (sanitized (exn_cls e))))"

text \<open>The exceptions of the repository's tests, and sample requests.\<close>

definition leaking_value_error :: exn where
  "leaking_value_error = Raised ValueError ''bad features: leak''"

definition leaking_exception :: exn where
  "leaking_exception = Raised (OtherException ''Exception'') ''internal details: secret''"

definition sample_risk_request :: risk_score_request where
  "sample_risk_request = \<lparr>rs_patient_id = 2001, patient_data = [(''age'', PInt 50)]\<rparr>"

definition sample_batch_request :: batch_request where
  "sample_batch_request =
     \<lparr>model_name = ''dummy'', batch_data = [[(''x'', PInt 1)], [(''x'', PInt (- 1))]]\<rparr>"

section \<open>Risk scorer: proofs\<close>

lemma rounding_mono: "is_rounding rnd \<Longrightarrow> x \<le> y \<Longrightarrow> rnd x \<le> rnd y"
  by (simp add: is_rounding_def mono_def)

lemma rounding_int: "is_rounding rnd \<Longrightarrow> \<bar>i\<bar> \<le> 2 ^ 53 \<Longrightarrow> rnd (real_of_int i) = real_of_int i"
  by (simp add: is_rounding_def)

lemma rounding_small:
  assumes "is_rounding rnd"
  shows "rnd 0 = 0" and "rnd 1 = 1" and "rnd 2 = 2" and "rnd 3 = 3"
    and "rnd (- 1) = - 1" and "rnd (- 3) = - 3" and "rnd (- 300) = - 300"
  using rounding_int [OF assms, of 0] rounding_int [OF assms, of 1]
    rounding_int [OF assms, of 2] rounding_int [OF assms, of 3]
    rounding_int [OF assms, of "- 1"] rounding_int [OF assms, of "- 3"]
    rounding_int [OF assms, of "- 300"]
  by simp_all

lemma is_rounding_exact: "is_rounding (\<lambda>x. x)"
  by (simp add: is_rounding_def mono_def)

lemma int_converts_0: "int_converts 0"
  by (simp add: int_converts_def double_limit_def)

lemma truediv_field:
  assumes "is_rounding rnd" and "field_scorable row k"
  shows "truediv rnd (row_get row k (ObjCell (PInt 0))) d
           = Inr (fl_div rnd (field_double rnd row k) d)"
proof (cases "map_of row k")
  case None
  then show ?thesis
    by (simp add: row_get_def field_double_def int_converts_0 rounding_small(1) [OF assms(1)])
next
  case (Some c)
  with assms(2) have "cell_scorable c" by (simp add: field_scorable_def)
  with Some show ?thesis
    by (cases c rule: cell_scorable.cases) (simp_all add: row_get_def field_double_def)
qed

lemma truediv_cell_raises:
  "\<not> cell_scorable c \<Longrightarrow> \<exists>e. truediv rnd c d = Inl e \<and> type_or_overflow e"
  by (cases c rule: cell_scorable.cases)
     (simp_all add: type_or_overflow_def overflow_error_def)

lemma truediv_cell_returns:
  "cell_scorable c \<Longrightarrow> \<exists>x. truediv rnd c d = Inr x"
  by (cases c rule: cell_scorable.cases) simp_all

lemma truediv_field_raises:
  assumes "\<not> field_scorable row k"
  shows "\<exists>e. truediv rnd (row_get row k (ObjCell (PInt 0))) d = Inl e \<and> type_or_overflow e"
proof -
  from assms obtain c where "map_of row k = Some c" and "\<not> cell_scorable c"
    by (auto simp: field_scorable_def split: option.splits)
  with truediv_cell_raises [of c rnd d] show ?thesis
    by (simp add: row_get_def)
qed

lemma truediv_field_cases:
  "(field_scorable row k \<and> (\<exists>x. truediv rnd (row_get row k (ObjCell (PInt 0))) d = Inr x)) \<or>
   (\<not> field_scorable row k \<and>
    (\<exists>e. truediv rnd (row_get row k (ObjCell (PInt 0))) d = Inl e \<and> type_or_overflow e))"
proof (cases "field_scorable row k")
  case False
  with truediv_field_raises [OF False, of rnd d] show ?thesis by blast
next
  case True
  have "cell_scorable (row_get row k (ObjCell (PInt 0)))"
    using True by (simp add: field_scorable_def row_get_def int_converts_0 split: option.splits)
  from truediv_cell_returns [OF this, of rnd d] True show ?thesis by blast
qed

lemma min_one_min: "min_one (Fl x) = min 1 x"
  by simp

lemma cardiovascular_row_spec:
  assumes "is_rounding rnd" and "scorer_fields_scorable row"
  shows "cardiovascular_row rnd row = Inr (spec_cardiovascular rnd row)"
proof -
  from assms(2) have a: "field_scorable row ''age''" and c: "field_scorable row ''cholesterol''"
    by (simp_all add: scorer_fields_scorable_def)
  show ?thesis
    unfolding cardiovascular_row_def truediv_field [OF assms(1) a] truediv_field [OF assms(1) c]
    by (cases "field_double rnd row ''age''"; cases "field_double rnd row ''cholesterol''")
       (simp_all add: spec_cardiovascular_def)
qed

lemma diabetes_row_spec:
  assumes "is_rounding rnd" and "scorer_fields_scorable row"
  shows "diabetes_row rnd row = Inr (spec_diabetes rnd row)"
proof -
  from assms(2) have g: "field_scorable row ''glucose_level''"
    by (simp add: scorer_fields_scorable_def)
  show ?thesis
    unfolding diabetes_row_def truediv_field [OF assms(1) g]
    by (cases "field_double rnd row ''glucose_level''") (simp_all add: spec_diabetes_def)
qed

lemma readmission_row_spec:
  assumes "is_rounding rnd" and "scorer_fields_scorable row"
  shows "readmission_row rnd row = Inr (spec_readmission rnd row)"
proof -
  from assms(2) have p: "field_scorable row ''previous_admissions''"
    by (simp add: scorer_fields_scorable_def)
  show ?thesis
    unfolding readmission_row_def truediv_field [OF assms(1) p]
    by (cases "field_double rnd row ''previous_admissions''") (simp_all add: spec_readmission_def)
qed

lemma apply_rows_total:
  "list_all P rs \<Longrightarrow> (\<And>r. P r \<Longrightarrow> f r = Inr (g r)) \<Longrightarrow> apply_rows f rs = Inr (map g rs)"
  by (induction rs) simp_all

lemma apply_rows_Inl:
  "apply_rows f rs = Inl e \<Longrightarrow> \<exists>r \<in> set rs. f r = Inl e"
proof (induction rs)
  case Nil
  then show ?case by simp
next
  case (Cons r rs)
  show ?case
  proof (cases "f r")
    case (Inl e1)
    with Cons.prems show ?thesis by simp
  next
    case (Inr v)
    with Cons.prems have "apply_rows f rs = Inl e"
      by (cases "apply_rows f rs") simp_all
    from Cons.IH [OF this] show ?thesis by auto
  qed
qed

lemma apply_rows_Inr:
  "apply_rows f rs = Inr vs \<Longrightarrow> \<forall>r \<in> set rs. \<exists>v. f r = Inr v"
proof (induction rs arbitrary: vs)
  case Nil
  then show ?case by simp
next
  case (Cons r rs)
  from Cons.prems obtain v where v: "f r = Inr v"
    by (cases "f r") simp_all
  with Cons.prems obtain ws where "apply_rows f rs = Inr ws"
    by (cases "apply_rows f rs") simp_all
  from Cons.IH [OF this] v show ?case by simp
qed

lemma mean3_map:
  "mean3 rnd (map f rs) (map g rs) (map h rs) = map (\<lambda>r. rnd (rnd (rnd (f r + g r) + h r) / 3)) rs"
  by (induction rs) simp_all

lemma cardiovascular_frame:
  assumes "is_rounding rnd" and "frame_scorable df"
  shows "calculate_cardiovascular_risk rnd df =
         Inr (map (\<lambda>r. spec_cardiovascular rnd (series_of_row df r)) (rows df))"
  unfolding calculate_cardiovascular_risk_def
  using assms(2) [unfolded frame_scorable_def]
  by (rule apply_rows_total) (rule cardiovascular_row_spec [OF assms(1)])

lemma diabetes_frame:
  assumes "is_rounding rnd" and "frame_scorable df"
  shows "calculate_diabetes_risk rnd df =
         Inr (map (\<lambda>r. spec_diabetes rnd (series_of_row df r)) (rows df))"
  unfolding calculate_diabetes_risk_def
  using assms(2) [unfolded frame_scorable_def]
  by (rule apply_rows_total) (rule diabetes_row_spec [OF assms(1)])

lemma readmission_frame:
  assumes "is_rounding rnd" and "frame_scorable df"
  shows "calculate_readmission_risk rnd df =
         Inr (map (\<lambda>r. spec_readmission rnd (series_of_row df r)) (rows df))"
  unfolding calculate_readmission_risk_def
  using assms(2) [unfolded frame_scorable_def]
  by (rule apply_rows_total) (rule readmission_row_spec [OF assms(1)])

lemma composite_frame:
  assumes "is_rounding rnd" and "frame_scorable df"
  shows "calculate_composite_risk rnd df =
         Inr (map (\<lambda>r. spec_composite rnd (series_of_row df r)) (rows df))"
  by (simp add: calculate_composite_risk_def cardiovascular_frame [OF assms]
      diabetes_frame [OF assms] readmission_frame [OF assms] mean3_map spec_composite_def)

text \<open>A row function returns only on scorable fields, and raises nothing but the two errors.\<close>

lemma cardiovascular_row_cases:
  "(\<exists>v. cardiovascular_row rnd row = Inr v) \<and>
     field_scorable row ''age'' \<and> field_scorable row ''cholesterol'' \<or>
   (\<exists>e. cardiovascular_row rnd row = Inl e \<and> type_or_overflow e)"
  using truediv_field_cases [of row "''age''" rnd 100]
    truediv_field_cases [of row "''cholesterol''" rnd 500]
  unfolding cardiovascular_row_def by auto

lemma diabetes_row_cases:
  "(\<exists>v. diabetes_row rnd row = Inr v) \<and> field_scorable row ''glucose_level'' \<or>
   (\<exists>e. diabetes_row rnd row = Inl e \<and> type_or_overflow e)"
  using truediv_field_cases [of row "''glucose_level''" rnd 300]
  unfolding diabetes_row_def by auto

lemma readmission_row_cases:
  "(\<exists>v. readmission_row rnd row = Inr v) \<and> field_scorable row ''previous_admissions'' \<or>
   (\<exists>e. readmission_row rnd row = Inl e \<and> type_or_overflow e)"
  using truediv_field_cases [of row "''previous_admissions''" rnd 8]
  unfolding readmission_row_def by auto

lemma composite_returns_scorable:
  assumes "calculate_composite_risk rnd df = Inr scores"
  shows "frame_scorable df"
proof -
  from assms obtain cv di rd where
    cv: "calculate_cardiovascular_risk rnd df = Inr cv"
    and di: "calculate_diabetes_risk rnd df = Inr di"
    and rd: "calculate_readmission_risk rnd df = Inr rd"
    unfolding calculate_composite_risk_def
    by (cases "calculate_cardiovascular_risk rnd df"; cases "calculate_diabetes_risk rnd df";
        cases "calculate_readmission_risk rnd df") simp_all
  have "scorer_fields_scorable (series_of_row df r)" if r: "r \<in> set (rows df)" for r
  proof -
    from apply_rows_Inr [OF cv [unfolded calculate_cardiovascular_risk_def]] r
    have "\<exists>v. cardiovascular_row rnd (series_of_row df r) = Inr v" by blast
    with cardiovascular_row_cases [of rnd "series_of_row df r"]
    have a: "field_scorable (series_of_row df r) ''age''"
      and c: "field_scorable (series_of_row df r) ''cholesterol''"
      by auto
    from apply_rows_Inr [OF di [unfolded calculate_diabetes_risk_def]] r
    have "\<exists>v. diabetes_row rnd (series_of_row df r) = Inr v" by blast
    with diabetes_row_cases [of rnd "series_of_row df r"]
    have g: "field_scorable (series_of_row df r) ''glucose_level''"
      by auto
    from apply_rows_Inr [OF rd [unfolded calculate_readmission_risk_def]] r
    have "\<exists>v. readmission_row rnd (series_of_row df r) = Inr v" by blast
    with readmission_row_cases [of rnd "series_of_row df r"]
    have p: "field_scorable (series_of_row df r) ''previous_admissions''"
      by auto
    from a c g p show ?thesis
      by (simp add: scorer_fields_scorable_def)
  qed
  then show ?thesis
    by (simp add: frame_scorable_def list_all_iff)
qed

lemma sub_score_raises:
  assumes "apply_rows f rs = Inl e"
    and "\<And>r. (\<exists>v. f r = Inr v) \<or> (\<exists>e. f r = Inl e \<and> type_or_overflow e)"
  shows "type_or_overflow e"
proof -
  from apply_rows_Inl [OF assms(1)] obtain r where "f r = Inl e" by blast
  with assms(2) [of r] show ?thesis by auto
qed

lemma composite_raises_class:
  assumes "calculate_composite_risk rnd df = Inl e"
  shows "type_or_overflow e"
proof (cases "calculate_cardiovascular_risk rnd df")
  case (Inl e1)
  with assms have "e1 = e" by (simp add: calculate_composite_risk_def)
  with Inl show ?thesis
    unfolding calculate_cardiovascular_risk_def
    using cardiovascular_row_cases by (intro sub_score_raises) blast+
next
  case cv: (Inr cv)
  show ?thesis
  proof (cases "calculate_diabetes_risk rnd df")
    case (Inl e1)
    with assms cv have "e1 = e" by (simp add: calculate_composite_risk_def)
    with Inl show ?thesis
      unfolding calculate_diabetes_risk_def
      using diabetes_row_cases by (intro sub_score_raises) blast+
  next
    case di: (Inr di)
    show ?thesis
    proof (cases "calculate_readmission_risk rnd df")
      case (Inl e1)
      with assms cv di have "e1 = e" by (simp add: calculate_composite_risk_def)
      with Inl show ?thesis
        unfolding calculate_readmission_risk_def
        using readmission_row_cases by (intro sub_score_raises) blast+
    next
      case (Inr rd)
      with assms cv di show ?thesis by (simp add: calculate_composite_risk_def)
    qed
  qed
qed

lemma composite_raises:
  assumes "\<not> frame_scorable df"
  shows "\<exists>e. calculate_composite_risk rnd df = Inl e \<and> type_or_overflow e"
proof (cases "calculate_composite_risk rnd df")
  case (Inl e)
  with composite_raises_class [OF Inl] show ?thesis by simp
next
  case (Inr scores)
  from composite_returns_scorable [OF Inr] assms show ?thesis by simp
qed


lemma spec_cardiovascular_le1: "spec_cardiovascular rnd row \<le> 1"
  by (simp add: spec_cardiovascular_def split: pyfloat.splits)

lemma spec_diabetes_le1: "spec_diabetes rnd row \<le> 1"
  by (simp add: spec_diabetes_def split: pyfloat.splits)

lemma spec_readmission_le1: "spec_readmission rnd row \<le> 1"
  by (simp add: spec_readmission_def split: pyfloat.splits)

lemma spec_composite_le1:
  assumes "is_rounding rnd"
  shows "spec_composite rnd row \<le> 1"
proof -
  let ?cv = "spec_cardiovascular rnd row" and ?di = "spec_diabetes rnd row"
    and ?rd = "spec_readmission rnd row"
  have "?cv + ?di \<le> 2"
    using spec_cardiovascular_le1 [of rnd row] spec_diabetes_le1 [of rnd row] by simp
  from rounding_mono [OF assms this] have "rnd (?cv + ?di) \<le> 2"
    by (simp add: rounding_small(3) [OF assms])
  with spec_readmission_le1 [of rnd row] have "rnd (?cv + ?di) + ?rd \<le> 3"
    by simp
  from rounding_mono [OF assms this] have "rnd (rnd (?cv + ?di) + ?rd) \<le> 3"
    by (simp add: rounding_small(4) [OF assms])
  then have "rnd (rnd (?cv + ?di) + ?rd) / 3 \<le> 1"
    by simp
  from rounding_mono [OF assms this] show ?thesis
    by (simp add: spec_composite_def rounding_small(2) [OF assms])
qed

lemma rounding_nonneg: "is_rounding rnd \<Longrightarrow> 0 \<le> x \<Longrightarrow> 0 \<le> rnd x"
  using rounding_mono [of rnd 0 x] by (simp add: rounding_small(1))

lemma field_double_nonneg:
  assumes "is_rounding rnd" and "field_nonneg row k" and "field_double rnd row k = Fl x"
  shows "0 \<le> x"
proof (cases "map_of row k")
  case None
  with assms(3) show ?thesis by (simp add: field_double_def)
next
  case (Some c)
  with assms(2) have "cell_nonneg c" by (simp add: field_nonneg_def)
  moreover from Some assms(3) have "cell_double rnd c = Fl x" by (simp add: field_double_def)
  ultimately show ?thesis
    by (cases c rule: cell_scorable.cases)
       (auto simp: rounding_nonneg [OF assms(1)] split: if_splits)
qed

lemma spec_sub_scores_ge0:
  assumes "is_rounding rnd" and "scorer_fields_nonneg row"
  shows "0 \<le> spec_cardiovascular rnd row" and "0 \<le> spec_diabetes rnd row"
    and "0 \<le> spec_readmission rnd row"
proof -
  note nn = field_double_nonneg [OF assms(1)]
  from assms(2) have a: "field_nonneg row ''age''" and c: "field_nonneg row ''cholesterol''"
    and g: "field_nonneg row ''glucose_level''" and p: "field_nonneg row ''previous_admissions''"
    by (simp_all add: scorer_fields_nonneg_def)
  show "0 \<le> spec_cardiovascular rnd row"
    using nn [OF a] nn [OF c]
    by (auto simp: spec_cardiovascular_def rounding_nonneg [OF assms(1)] split: pyfloat.splits)
  show "0 \<le> spec_diabetes rnd row"
    using nn [OF g]
    by (auto simp: spec_diabetes_def rounding_nonneg [OF assms(1)] split: pyfloat.splits)
  show "0 \<le> spec_readmission rnd row"
    using nn [OF p]
    by (auto simp: spec_readmission_def rounding_nonneg [OF assms(1)] split: pyfloat.splits)
qed

lemma spec_composite_ge0:
  assumes "is_rounding rnd" and "scorer_fields_nonneg row"
  shows "0 \<le> spec_composite rnd row"
  using spec_sub_scores_ge0 [OF assms]
  by (simp add: spec_composite_def rounding_nonneg [OF assms(1)])

lemma negative_age_score:
  assumes "is_rounding rnd"
  shows "calculate_composite_risk rnd negative_age_frame = Inr [- 1]"
  by (simp add: negative_age_frame_def calculate_composite_risk_def
      calculate_cardiovascular_risk_def calculate_diabetes_risk_def
      calculate_readmission_risk_def cardiovascular_row_def diabetes_row_def
      readmission_row_def row_get_def series_of_row_def int_converts_0
      rounding_small [OF assms])

lemma sample_patient_frame_scorable: "frame_scorable sample_patient_frame"
  by (simp add: frame_scorable_def sample_patient_frame_def scorer_fields_scorable_def
      field_scorable_def series_of_row_def)

lemma sample_patient_row_nonneg:
  "scorer_fields_nonneg (series_of_row sample_patient_frame (rows sample_patient_frame ! 0))"
  by (simp add: sample_patient_frame_def scorer_fields_nonneg_def field_nonneg_def
      series_of_row_def)

lemma huge_age_frame_raises:
  "\<not> frame_scorable huge_age_frame \<and>
   calculate_composite_risk (\<lambda>x. x) huge_age_frame = Inl overflow_error"
  by (simp add: frame_scorable_def huge_age_frame_def scorer_fields_scorable_def
      field_scorable_def series_of_row_def int_converts_def double_limit_def
      calculate_composite_risk_def calculate_cardiovascular_risk_def cardiovascular_row_def
      row_get_def)

text \<open>
  C1, as stated, fails: the sub-scores are clamped from above only (\<open>min(1.0, ...)\<close>), so
  a negative field gives a negative score. For the record \<open>{"age": -300}\<close> the
  cardiovascular sub-score is \<open>-3.0\<close> and the composite score is \<open>-1.0\<close>.
\<close>

theorem composite_risk_negative_counterexample:
  "is_rounding (\<lambda>x. x) \<and> frame_scorable negative_age_frame \<and>
   calculate_composite_risk (\<lambda>x. x) negative_age_frame = Inr [- 1] \<and>
   \<not> (0 \<le> (- 1 :: real))"
  using negative_age_score [OF is_rounding_exact] is_rounding_exact
  by (simp add: frame_scorable_def scorer_fields_scorable_def field_scorable_def
      negative_age_frame_def series_of_row_def)

text \<open>
  C1, amended: calculate_composite_risk returns one score for each row of a frame in
  which age, cholesterol, glucose_level and previous_admissions are, in every row, a
  number (an int within the range of the doubles, a float or a bool), a missing cell,
  or not a column of the frame; on any other frame it raises a TypeError or an
  OverflowError. Every score it returns is at most 1, whatever the magnitudes and signs
  of the fields, because each sub-score is clamped at 1 from above; the score of a row
  none of whose four fields is negative lies in [0, 1]. The sub-scores are not clamped
  from below. A field that is not a column defaults to 0, and a sub-score that reads a
  missing cell is 1.
\<close>

theorem composite_risk_bounds:
  assumes "is_rounding rnd"
  shows "(frame_scorable df \<longrightarrow>
            (\<exists>scores. calculate_composite_risk rnd df = Inr scores \<and>
               length scores = length (rows df) \<and>
               (\<forall>i < length (rows df).
                  scores ! i \<le> 1 \<and>
                  (scorer_fields_nonneg (series_of_row df (rows df ! i))
                     \<longrightarrow> 0 \<le> scores ! i)))) \<and>
         (\<not> frame_scorable df \<longrightarrow>
            (\<exists>e. calculate_composite_risk rnd df = Inl e \<and> type_or_overflow e))"
proof (intro conjI impI)
  assume scorable: "frame_scorable df"
  let ?scores = "map (\<lambda>r. spec_composite rnd (series_of_row df r)) (rows df)"
  have "calculate_composite_risk rnd df = Inr ?scores"
    using assms scorable by (rule composite_frame)
  moreover have "length ?scores = length (rows df)"
    by simp
  moreover have "\<forall>i < length (rows df).
      ?scores ! i \<le> 1 \<and>
      (scorer_fields_nonneg (series_of_row df (rows df ! i)) \<longrightarrow> 0 \<le> ?scores ! i)"
    by (simp add: spec_composite_le1 [OF assms] spec_composite_ge0 [OF assms])
  ultimately show "\<exists>scores. calculate_composite_risk rnd df = Inr scores \<and>
               length scores = length (rows df) \<and>
               (\<forall>i < length (rows df).
                  scores ! i \<le> 1 \<and>
                  (scorer_fields_nonneg (series_of_row df (rows df ! i))
                     \<longrightarrow> 0 \<le> scores ! i))"
    by blast
next
  assume "\<not> frame_scorable df"
  then show "\<exists>e. calculate_composite_risk rnd df = Inl e \<and> type_or_overflow e"
    by (rule composite_raises)
qed

theorem composite_risk_bounds_witness:
  "is_rounding (\<lambda>x. x) \<and> frame_scorable sample_patient_frame \<and>
   scorer_fields_nonneg (series_of_row sample_patient_frame (rows sample_patient_frame ! 0)) \<and>
   (\<exists>scores. calculate_composite_risk (\<lambda>x. x) sample_patient_frame = Inr scores \<and>
      length scores = 1 \<and> scores ! 0 \<le> 1 \<and> 0 \<le> scores ! 0) \<and>
   \<not> frame_scorable huge_age_frame \<and>
   (\<exists>e. calculate_composite_risk (\<lambda>x. x) huge_age_frame = Inl e \<and> type_or_overflow e)"
proof -
  have len: "length (rows sample_patient_frame) = 1"
    by (simp add: sample_patient_frame_def)
  note b = composite_risk_bounds [OF is_rounding_exact]
  from b [of sample_patient_frame] sample_patient_frame_scorable
  obtain scores where "calculate_composite_risk (\<lambda>x. x) sample_patient_frame = Inr scores"
    and "length scores = length (rows sample_patient_frame)"
    and "\<forall>i < length (rows sample_patient_frame).
           scores ! i \<le> 1 \<and>
           (scorer_fields_nonneg
              (series_of_row sample_patient_frame (rows sample_patient_frame ! i))
            \<longrightarrow> 0 \<le> scores ! i)"
    by blast
  with sample_patient_row_nonneg len
  have first: "\<exists>scores. calculate_composite_risk (\<lambda>x. x) sample_patient_frame = Inr scores \<and>
      length scores = 1 \<and> scores ! 0 \<le> 1 \<and> 0 \<le> scores ! 0"
    by auto
  from b [of huge_age_frame] huge_age_frame_raises
  have second: "\<exists>e. calculate_composite_risk (\<lambda>x. x) huge_age_frame = Inl e \<and> type_or_overflow e"
    by blast
  from first second show ?thesis
    using is_rounding_exact sample_patient_frame_scorable sample_patient_row_nonneg
      huge_age_frame_raises
    by blast
qed





lemma categorize_loop_append: "categorize_loop seq cats = cats @ map bucket4 seq"
  by (induction seq arbitrary: cats) (simp_all add: bucket4_def)

lemma categorize_risk_levels_map: "categorize_risk_levels scores = map bucket4 scores"
  by (simp add: categorize_risk_levels_def categorize_loop_append)

section \<open>Thresholds of the two scales: proofs\<close>

lemma try_bind_Inr: "try_bind m f = Inr r \<longleftrightarrow> (\<exists>v. m = Inr v \<and> f v = Inr r)"
  by (cases m) simp_all


lemma response_fields:
  assumes "NoShowPredictionResponse label prob risk conf facs = Inr r"
  shows "prob = Fl (probability r) \<and> prediction r = label \<and> risk_level r = risk"
  using assms by (auto simp: NoShowPredictionResponse_def split: pyfloat.splits if_splits)


lemma predict_no_show_Returned:
  assumes "predict_no_show pd manager payload = Returned r"
  shows "\<exists>get model. manager = Some get \<and> get ''no_show_predictor'' = Inr model \<and>
           no_show_try pd model (no_show_data payload) = Inr r"
  using assms
  by (auto simp: predict_no_show_def split: option.splits sum.splits if_splits)

lemma predict_batch_fields:
  assumes "predict_batch sk model X = Inr raw"
  shows "\<exists>probs. predict_proba sk model X = Inr probs \<and>
           raw_probabilities raw = Some probs \<and>
           raw_predictions raw = Some (map (\<lambda>p. if fl_ge p 0.5 then 1 else 0) probs) \<and>
           raw_risk_levels raw =
             Some (map (\<lambda>p. if fl_ge p 0.7 then ''HIGH''
                             else (if fl_ge p 0.4 then ''MEDIUM'' else ''LOW'')) probs) \<and>
           raw_explanations raw = Some (map (\<lambda>p. PNone) probs)"
  using assms unfolding predict_batch_def Let_def try_bind_Inr by auto




text \<open>
  C5: categorize_risk_levels gives each score exactly one of four buckets: CRITICAL
  iff s >= 0.85, HIGH iff 0.7 <= s < 0.85, MEDIUM iff 0.4 <= s < 0.7, LOW iff s < 0.4.
  The no-show path has its own three-level scale: the bucket of a response of
  predict_no_show and the buckets of predict_batch are HIGH, MEDIUM or LOW, never
  CRITICAL.
\<close>

theorem categorize_four_levels:
  "length (categorize_risk_levels scores) = length scores \<and>
   (\<forall>i < length scores.
      (categorize_risk_levels scores ! i = ''CRITICAL'' \<longleftrightarrow> scores ! i \<ge> 0.85) \<and>
      (categorize_risk_levels scores ! i = ''HIGH'' \<longleftrightarrow> 0.7 \<le> scores ! i \<and> scores ! i < 0.85) \<and>
      (categorize_risk_levels scores ! i = ''MEDIUM'' \<longleftrightarrow> 0.4 \<le> scores ! i \<and> scores ! i < 0.7) \<and>
      (categorize_risk_levels scores ! i = ''LOW'' \<longleftrightarrow> scores ! i < 0.4)) \<and>
   (predict_no_show pd manager payload = Returned r \<longrightarrow>
      risk_level r \<in> {''HIGH'', ''MEDIUM'', ''LOW''}) \<and>
   (predict_batch sk model X = Inr raw \<longrightarrow>
      (\<exists>risks. raw_risk_levels raw = Some risks \<and> set risks \<subseteq> {''HIGH'', ''MEDIUM'', ''LOW''}))"
proof (intro conjI impI)
  show "length (categorize_risk_levels scores) = length scores"
    by (simp add: categorize_risk_levels_map)
  show "\<forall>i < length scores.
      (categorize_risk_levels scores ! i = ''CRITICAL'' \<longleftrightarrow> scores ! i \<ge> 0.85) \<and>
      (categorize_risk_levels scores ! i = ''HIGH'' \<longleftrightarrow> 0.7 \<le> scores ! i \<and> scores ! i < 0.85) \<and>
      (categorize_risk_levels scores ! i = ''MEDIUM'' \<longleftrightarrow> 0.4 \<le> scores ! i \<and> scores ! i < 0.7) \<and>
      (categorize_risk_levels scores ! i = ''LOW'' \<longleftrightarrow> scores ! i < 0.4)"
    by (simp add: categorize_risk_levels_map bucket4_def)
next
  assume "predict_no_show pd manager payload = Returned r"
  from predict_no_show_Returned [OF this] obtain model where
    "no_show_try pd model (no_show_data payload) = Inr r" by blast
  then obtain prob facs where
    "NoShowPredictionResponse (if fl_ge prob 0.5 then 1 else 0) prob
       (if fl_ge prob 0.7 then ''HIGH'' else (if fl_ge prob 0.4 then ''MEDIUM'' else ''LOW''))
       (last_confidence model) facs = Inr r"
    unfolding no_show_try_def Let_def try_bind_Inr by blast
  from response_fields [OF this]
  have "risk_level r =
      (if fl_ge prob 0.7 then ''HIGH'' else (if fl_ge prob 0.4 then ''MEDIUM'' else ''LOW''))"
    by blast
  then show "risk_level r \<in> {''HIGH'', ''MEDIUM'', ''LOW''}"
    by (simp split: if_splits)
next
  assume "predict_batch sk model X = Inr raw"
  from predict_batch_fields [OF this] obtain probs where
    "raw_risk_levels raw =
       Some (map (\<lambda>p. if fl_ge p 0.7 then ''HIGH''
                       else (if fl_ge p 0.4 then ''MEDIUM'' else ''LOW'')) probs)"
    by blast
  then show "\<exists>risks. raw_risk_levels raw = Some risks \<and>
      set risks \<subseteq> {''HIGH'', ''MEDIUM'', ''LOW''}"
    by auto
qed

theorem categorize_four_levels_witness:
  "categorize_risk_levels [0.9, 0.85, 0.7, 0.5, 0.1] =
     [''CRITICAL'', ''CRITICAL'', ''HIGH'', ''MEDIUM'', ''LOW''] \<and>
   predict_no_show no_frames (Some (\<lambda>name. Inr (fixed_probability_model 0.9))) sample_request =
     Returned \<lparr>prediction = 1, probability = 0.9, risk_level = ''HIGH'',
               confidence = None, factors = None\<rparr> \<and>
   predict_batch True (Some boundary_backend) (Frame three_row_frame) =
     Inr \<lparr>raw_predictions = Some [1, 0, 0],
          raw_probabilities = Some [Fl 0.7, Fl 0.4, Fl 0.39999],
          raw_risk_levels = Some [''HIGH'', ''MEDIUM'', ''LOW''],
          raw_explanations = Some [PNone, PNone, PNone]\<rparr>"
  using categorize_four_levels [of "[0.9, 0.85, 0.7, 0.5, 0.1]" no_frames
      "Some (\<lambda>name. Inr (fixed_probability_model 0.9))" sample_request
      "\<lparr>prediction = 1, probability = 0.9, risk_level = ''HIGH'',
               confidence = None, factors = None\<rparr>"
      True "Some boundary_backend" "Frame three_row_frame"
      "\<lparr>raw_predictions = Some [1, 0, 0],
          raw_probabilities = Some [Fl 0.7, Fl 0.4, Fl 0.39999],
          raw_risk_levels = Some [''HIGH'', ''MEDIUM'', ''LOW''],
          raw_explanations = Some [PNone, PNone, PNone]\<rparr>"]
  by (simp add: categorize_risk_levels_def predict_batch_def predict_proba_def
      boundary_backend_def predict_no_show_def no_show_try_def fixed_probability_model_def
      explain_def NoShowPredictionResponse_def)

section \<open>No-show probabilities: proofs\<close>

lemma checked_sum:
  "sum_list (map to_float (filter isinstance_int_float vs)) =
     sum_list (number_values vs) + real (count_true (bool_values vs))"
  by (induction vs rule: number_values.induct) (simp_all add: count_true_def)

lemma checked_length:
  "length (filter isinstance_int_float vs) = length (number_values vs) + length (bool_values vs)"
  by (induction vs rule: number_values.induct) simp_all

lemma checked_empty:
  "filter isinstance_int_float vs = [] \<longleftrightarrow> number_values vs = [] \<and> bool_values vs = []"
  using checked_length [of vs] by (metis add_is_0 length_0_conv)

lemma single_formula:
  "predict_proba_single x =
     (if number_values (map snd x) = [] \<and> bool_values (map snd x) = [] then 0.1
      else squash ((sum_list (number_values (map snd x)) + real (count_true (bool_values (map snd x))))
                    / real (length (number_values (map snd x)) + length (bool_values (map snd x)))))"
proof -
  let ?vals = "filter isinstance_int_float (map snd x)"
  have "predict_proba_single x =
      (if ?vals = [] then 0.1 else squash (sum_list (map to_float ?vals) / real (length ?vals)))"
    unfolding predict_proba_single_def Let_def squash_def ..
  then show ?thesis
    unfolding checked_empty checked_sum checked_length .
qed

lemma squash_mono: "m1 \<le> m2 \<Longrightarrow> squash m1 \<le> squash m2"
  unfolding squash_def
  by (intro divide_left_mono add_left_mono mult_pos_pos add_pos_pos) simp_all

lemma exp_half_upper: "exp (1 / 2 :: real) < 16493 / 10000"
proof -
  obtain t :: real where t: "\<bar>t\<bar> \<le> \<bar>1 / 2\<bar>"
    and e: "exp (1 / 2 :: real) = (\<Sum>m<5. (1 / 2) ^ m / fact m) + exp t / fact 5 * (1 / 2) ^ 5"
    using Maclaurin_exp_le [of "1 / 2 :: real" 5] by blast
  have "exp t \<le> exp (1 :: real)" using t by simp
  then have t3: "exp t \<le> 3" using exp_le by linarith
  have s: "(\<Sum>m<5. (1 / 2 :: real) ^ m / fact m) = 211 / 128"
    by (simp add: eval_nat_numeral fact_numeral)
  have f: "fact 5 = (120 :: real)"
    by (simp add: eval_nat_numeral)
  have p: "(1 / 2 :: real) ^ 5 = 1 / 32"
    by (simp add: power_divide)
  have "exp (1 / 2 :: real) = 211 / 128 + exp t / 3840"
    unfolding e s f p by simp
  with t3 show ?thesis by simp
qed

lemma exp_eighth_lower: "(11328125 / 10000000 :: real) \<le> exp (1 / 8)"
  using exp_lower_Taylor_quadratic [of "1 / 8 :: real"] by (simp add: power2_eq_square)

lemma exp_half_lower: "(1646 / 1000 :: real) < exp (1 / 2)"
proof -
  let ?a = "11328125 / 10000000 :: real"
  have a: "?a \<le> exp (1 / 8)" by (rule exp_eighth_lower)
  have "?a * ?a \<le> exp (1 / 8) * exp (1 / 8)"
    by (rule mult_mono [OF a a]) simp_all
  also have "exp (1 / 8 :: real) * exp (1 / 8) = exp (1 / 4)"
    by (simp add: exp_add [symmetric])
  finally have q: "?a * ?a \<le> exp (1 / 4)" .
  have "(?a * ?a) * (?a * ?a) \<le> exp (1 / 4) * exp (1 / 4)"
    by (rule mult_mono [OF q q]) simp_all
  also have "exp (1 / 4 :: real) * exp (1 / 4) = exp (1 / 2)"
    by (simp add: exp_add [symmetric])
  finally have "(?a * ?a) * (?a * ?a) \<le> exp (1 / 2)" .
  then show ?thesis by simp
qed

lemma squash_zero: "squash 0 = 1 / (1 + exp (1 / 2))"
  by (simp add: squash_def)

lemma squash_zero_bounds: "377 / 1000 < squash 0 \<and> squash 0 < 378 / 1000"
proof -
  have pos: "0 < 1 + exp (1 / 2 :: real)" by (simp add: add_pos_pos)
  have "377 / 1000 * (1 + exp (1 / 2 :: real)) < 1"
    using exp_half_upper by simp
  then have l: "377 / 1000 < 1 / (1 + exp (1 / 2 :: real))"
    using pos by (simp add: pos_less_divide_eq)
  have "1 < 378 / 1000 * (1 + exp (1 / 2 :: real))"
    using exp_half_lower by simp
  then have u: "1 / (1 + exp (1 / 2 :: real)) < 378 / 1000"
    using pos by (simp add: pos_divide_less_eq)
  from l u show ?thesis by (simp add: squash_zero)
qed

lemma squash_nonneg_not_default: "0 \<le> m \<Longrightarrow> squash m \<noteq> 0.1"
  using squash_mono [of 0 m] squash_zero_bounds by auto






lemma all_bools_values:
  "list_all is_bool vs \<Longrightarrow> number_values vs = [] \<and> length (bool_values vs) = length vs"
  by (induction vs rule: number_values.induct) simp_all
















text \<open>
  C10: a bool passes the check of predict_proba_single and counts as 1.0 when True and
  0.0 when False; so a record whose only values are booleans does not get the default
  0.1 but the logistic squashing of the booleans' mean, and a record of False values
  only gets 1 / (1 + e^0.5), which lies between 0.377 and 0.378.
\<close>

theorem booleans_are_averaged:
  assumes "x \<noteq> []" and "list_all is_bool (map snd x)"
  shows "isinstance_int_float (PBool b) \<and> to_float (PBool b) = (if b then 1 else 0) \<and>
         predict_proba_single x =
           squash (real (count_true (bool_values (map snd x))) / real (length x)) \<and>
         predict_proba_single x \<noteq> 0.1 \<and>
         (count_true (bool_values (map snd x)) = 0 \<longrightarrow>
            predict_proba_single x = 1 / (1 + exp (1 / 2)) \<and>
            377 / 1000 < predict_proba_single x \<and> predict_proba_single x < 378 / 1000)"
proof -
  from all_bools_values [OF assms(2)]
  have n: "number_values (map snd x) = []"
    and l: "length (bool_values (map snd x)) = length x"
    by simp_all
  from l assms(1) have ne: "bool_values (map snd x) \<noteq> []"
    by auto
  have eq: "predict_proba_single x =
      squash (real (count_true (bool_values (map snd x))) / real (length x))"
    by (simp add: single_formula n l ne)
  have "0 \<le> real (count_true (bool_values (map snd x))) / real (length x)"
    by simp
  from squash_nonneg_not_default [OF this] eq
  have nd: "predict_proba_single x \<noteq> 0.1"
    by simp
  have z: "predict_proba_single x = 1 / (1 + exp (1 / 2)) \<and>
      377 / 1000 < predict_proba_single x \<and> predict_proba_single x < 378 / 1000"
    if "count_true (bool_values (map snd x)) = 0"
    using that eq squash_zero squash_zero_bounds by simp
  have b: "isinstance_int_float (PBool b)" "to_float (PBool b) = (if b then 1 else 0)"
    by simp_all
  from b eq nd z show ?thesis
    by blast
qed

theorem booleans_are_averaged_witness:
  "flags_record \<noteq> [] \<and> list_all is_bool (map snd flags_record) \<and>
   count_true (bool_values (map snd flags_record)) = 0 \<and>
   predict_proba_single flags_record = 1 / (1 + exp (1 / 2)) \<and>
   predict_proba_single flags_record \<noteq> 0.1 \<and>
   377 / 1000 < predict_proba_single flags_record \<and>
   predict_proba_single flags_record < 378 / 1000"
proof -
  have a: "flags_record \<noteq> []" and b: "list_all is_bool (map snd flags_record)"
    and c: "count_true (bool_values (map snd flags_record)) = 0"
    by (simp_all add: flags_record_def count_true_def)
  from booleans_are_averaged [OF a b] a b c show ?thesis
    by simp
qed

section \<open>Registry: proofs\<close>

lemma health_check_iff:
  "health_check mgr \<longleftrightarrow>
     present_and_trained mgr ''no_show_predictor'' \<and> present_and_trained mgr ''risk_scorer''"
  by (auto simp: health_check_def present_and_trained_def split: option.splits)

text \<open>
  C8: health_check returns healthy if and only if each of the two required names,
  "no_show_predictor" and "risk_scorer", has a model in the mapping whose trained flag
  is true; when either is absent or untrained it returns unhealthy, a value and not an
  error, whatever the state of the other.
\<close>

theorem health_check_required_models:
  "(health_check mgr \<longleftrightarrow>
      present_and_trained mgr ''no_show_predictor'' \<and> present_and_trained mgr ''risk_scorer'') \<and>
   (\<not> present_and_trained mgr ''no_show_predictor'' \<longrightarrow> health_check mgr = False) \<and>
   (\<not> present_and_trained mgr ''risk_scorer'' \<longrightarrow> health_check mgr = False)"
  using health_check_iff [of mgr] by blast

theorem health_check_required_models_witness:
  "\<not> present_and_trained (initialize failing_outside new_manager) ''no_show_predictor'' \<and>
   present_and_trained (initialize failing_outside new_manager) ''risk_scorer'' \<and>
   health_check (initialize failing_outside new_manager) = False \<and>
   \<not> present_and_trained new_manager ''risk_scorer'' \<and>
   health_check new_manager = False \<and>
   health_check (initialize working_outside new_manager) = True"
  using health_check_required_models [of "initialize failing_outside new_manager"]
    health_check_required_models [of new_manager]
    health_check_required_models [of "initialize working_outside new_manager"]
  by (simp add: present_and_trained_def initialize_def new_manager_def failing_outside_def
      working_outside_def load_model_from_disk_def train_baseline_model_def save_model_def
      metadata_stamp_def health_check_def Let_def)



















section \<open>Error mapping of the endpoints: proofs\<close>

lemma no_show_raises_try:
  assumes "no_show_prediction_raises pd model data e"
  shows "no_show_try pd model data = Inl e"
proof (cases "predict_proba_single_m model")
  case (Some f)
  with assms show ?thesis
    by (simp add: no_show_prediction_raises_def no_show_try_def)
next
  case None
  with assms obtain g df where "predict_proba_m model = Some g"
    and "pd [data] = Inr df" and "g df = Inl e"
    by (auto simp: no_show_prediction_raises_def split: option.splits sum.splits)
  with None show ?thesis
    by (simp add: no_show_try_def)
qed

lemma risk_raises_try:
  assumes "risk_prediction_raises pd model pdata e"
  shows "risk_try pd model pdata = Inl e"
proof -
  from assms obtain f df where "pd [pdata] = Inr df"
    and "calculate_composite_risk_m model = Some f" and "f df = Inl e"
    by (auto simp: risk_prediction_raises_def split: option.splits sum.splits)
  then show ?thesis
    by (simp add: risk_try_def)
qed

lemma batch_raises_try:
  assumes "batch_prediction_raises pd model recs e"
  shows "batch_try pd model recs = Inl e"
proof -
  from assms obtain df where df: "pd recs = Inr df"
    by (auto simp: batch_prediction_raises_def split: sum.splits)
  show ?thesis
  proof (cases "predict_batch_m model")
    case (Some pb)
    with assms df show ?thesis
      by (simp add: batch_prediction_raises_def batch_try_def)
  next
    case None
    with assms df obtain f where f: "predict_m model = Some f"
      by (auto simp: batch_prediction_raises_def split: option.splits)
    show ?thesis
    proof (cases "f df")
      case (Inl e1)
      with assms df None f show ?thesis
        by (simp add: batch_prediction_raises_def batch_try_def)
    next
      case (Inr preds)
      with assms df None f obtain g where "predict_proba_m model = Some g" and "g df = Inl e"
        by (auto simp: batch_prediction_raises_def split: option.splits)
      with df None f Inr show ?thesis
        by (simp add: batch_try_def)
    qed
  qed
qed

lemma no_show_try_error:
  assumes "get ''no_show_predictor'' = Inr model"
    and "no_show_try pd model (no_show_data payload) = Inl e"
  shows "client_view (predict_no_show pd (Some get) payload) = error_view e"
  using assms by (simp add: predict_no_show_def error_view_def sanitized_def)

lemma risk_try_error:
  assumes "get ''risk_scorer'' = Inr model"
    and "risk_try pd model (patient_data payload) = Inl e"
  shows "client_view (predict_risk pd (Some get) payload) = error_view e"
  using assms by (simp add: predict_risk_def error_view_def sanitized_def)

lemma batch_try_error:
  assumes "get (model_name payload) = Inr model"
    and "batch_try pd model (batch_data payload) = Inl e"
  shows "client_view (predict_batch_endpoint pd (Some get) payload) = error_view e"
  using assms by (simp add: predict_batch_endpoint_def error_view_def sanitized_def)

text \<open>
  C2: in each of the three prediction endpoints (no-show, risk-score, batch), when the
  prediction computation of the resolved model raises an exception, a ValueError or
  TypeError (or a subclass) gives status 400 with the message "Invalid input", and any
  other exception gives status 500 with the message "Prediction failed"; the status
  and the message are determined by the class of the exception alone, so the message
  is the same whatever text the exception carries.
\<close>

theorem prediction_errors_are_sanitized:
  "(get1 ''no_show_predictor'' = Inr m1 \<and>
    no_show_prediction_raises pd m1 (no_show_data p1) e \<longrightarrow>
      client_view (predict_no_show pd (Some get1) p1) = error_view e) \<and>
   (get2 ''risk_scorer'' = Inr m2 \<and>
    risk_prediction_raises pd m2 (patient_data p2) e \<longrightarrow>
      client_view (predict_risk pd (Some get2) p2) = error_view e) \<and>
   (get3 (model_name p3) = Inr m3 \<and>
    batch_prediction_raises pd m3 (batch_data p3) e \<longrightarrow>
      client_view (predict_batch_endpoint pd (Some get3) p3) = error_view e) \<and>
   (derives c ValueError \<or> derives c TypeError \<longrightarrow>
      (error_view (Raised c t) :: nat \<times> (string + unit)) = (400, Inl ''Invalid input'')) \<and>
   (\<not> (derives c ValueError \<or> derives c TypeError) \<longrightarrow>
      (error_view (Raised c t) :: nat \<times> (string + unit)) = (500, Inl ''Prediction failed''))"
proof (intro conjI impI)
  assume "get1 ''no_show_predictor'' = Inr m1 \<and>
    no_show_prediction_raises pd m1 (no_show_data p1) e"
  then have g: "get1 ''no_show_predictor'' = Inr m1"
    and r: "no_show_prediction_raises pd m1 (no_show_data p1) e"
    by simp_all
  show "client_view (predict_no_show pd (Some get1) p1) = error_view e"
    by (rule no_show_try_error [where get = get1 and model = m1, OF g no_show_raises_try [OF r]])
next
  assume "get2 ''risk_scorer'' = Inr m2 \<and>
    risk_prediction_raises pd m2 (patient_data p2) e"
  then have g: "get2 ''risk_scorer'' = Inr m2"
    and r: "risk_prediction_raises pd m2 (patient_data p2) e"
    by simp_all
  show "client_view (predict_risk pd (Some get2) p2) = error_view e"
    by (rule risk_try_error [where get = get2 and model = m2, OF g risk_raises_try [OF r]])
next
  assume "get3 (model_name p3) = Inr m3 \<and>
    batch_prediction_raises pd m3 (batch_data p3) e"
  then have g: "get3 (model_name p3) = Inr m3"
    and r: "batch_prediction_raises pd m3 (batch_data p3) e"
    by simp_all
  show "client_view (predict_batch_endpoint pd (Some get3) p3) = error_view e"
    by (rule batch_try_error [where get = get3 and model = m3, OF g batch_raises_try [OF r]])
next
  assume "derives c ValueError \<or> derives c TypeError"
  then show "(error_view (Raised c t) :: nat \<times> (string + unit)) = (400, Inl ''Invalid input'')"
    by (simp add: error_view_def sanitized_def)
next
  assume "\<not> (derives c ValueError \<or> derives c TypeError)"
  then show "(error_view (Raised c t) :: nat \<times> (string + unit)) = (500, Inl ''Prediction failed'')"
    by (simp add: error_view_def sanitized_def)
qed

theorem prediction_errors_are_sanitized_witness:
  "client_view (predict_no_show no_frames
       (Some (\<lambda>name. Inr (single_raises leaking_value_error))) sample_request)
     = (400, Inl ''Invalid input'') \<and>
   client_view (predict_no_show no_frames
       (Some (\<lambda>name. Inr (single_raises leaking_exception))) sample_request)
     = (500, Inl ''Prediction failed'') \<and>
   client_view (predict_risk sample_frames
       (Some (\<lambda>name. Inr (scoring_raises leaking_value_error))) sample_risk_request)
     = (400, Inl ''Invalid input'') \<and>
   client_view (predict_batch_endpoint sample_frames
       (Some (\<lambda>name. Inr (batch_raises leaking_exception))) sample_batch_request)
     = (500, Inl ''Prediction failed'') \<and>
   (error_view (Raised (Subclass ValueError ''ValidationError'') ''probability'')
      :: nat \<times> (string + unit)) = (400, Inl ''Invalid input'') \<and>
   (error_view (Raised KeyError ''age'') :: nat \<times> (string + unit))
     = (500, Inl ''Prediction failed'')"
proof -
  have r1: "no_show_prediction_raises no_frames (single_raises leaking_value_error)
      (no_show_data sample_request) leaking_value_error"
    and r2: "no_show_prediction_raises no_frames (single_raises leaking_exception)
      (no_show_data sample_request) leaking_exception"
    by (simp_all add: no_show_prediction_raises_def single_raises_def no_methods_def)
  have r3: "risk_prediction_raises sample_frames (scoring_raises leaking_value_error)
      (patient_data sample_risk_request) leaking_value_error"
    by (simp add: risk_prediction_raises_def scoring_raises_def no_methods_def sample_frames_def)
  have r4: "batch_prediction_raises sample_frames (batch_raises leaking_exception)
      (batch_data sample_batch_request) leaking_exception"
    by (simp add: batch_prediction_raises_def batch_raises_def no_methods_def sample_frames_def)
  have v: "(error_view leaking_value_error :: nat \<times> (string + 'a)) = (400, Inl ''Invalid input'')"
    and x: "(error_view leaking_exception :: nat \<times> (string + 'a)) = (500, Inl ''Prediction failed'')"
    by (simp_all add: error_view_def sanitized_def leaking_value_error_def leaking_exception_def)
  note a = prediction_errors_are_sanitized
    [where ?get1.0 = "\<lambda>name. Inr (single_raises leaking_value_error)"
       and ?m1.0 = "single_raises leaking_value_error" and pd = no_frames
       and ?p1.0 = sample_request and e = leaking_value_error
       and c = "Subclass ValueError ''ValidationError''" and t = "''probability''"]
  note b = prediction_errors_are_sanitized
    [where ?get1.0 = "\<lambda>name. Inr (single_raises leaking_exception)"
       and ?m1.0 = "single_raises leaking_exception" and pd = no_frames
       and ?p1.0 = sample_request and e = leaking_exception
       and c = KeyError and t = "''age''"]
  note c = prediction_errors_are_sanitized
    [where ?get2.0 = "\<lambda>name. Inr (scoring_raises leaking_value_error)"
       and ?m2.0 = "scoring_raises leaking_value_error" and pd = sample_frames
       and ?p2.0 = sample_risk_request and e = leaking_value_error]
  note d = prediction_errors_are_sanitized
    [where ?get3.0 = "\<lambda>name. Inr (batch_raises leaking_exception)"
       and ?m3.0 = "batch_raises leaking_exception" and pd = sample_frames
       and ?p3.0 = sample_batch_request and e = leaking_exception]
  from a r1 have "client_view (predict_no_show no_frames
       (Some (\<lambda>name. Inr (single_raises leaking_value_error))) sample_request)
     = (400, Inl ''Invalid input'')"
    unfolding v by simp
  moreover from b r2 have "client_view (predict_no_show no_frames
       (Some (\<lambda>name. Inr (single_raises leaking_exception))) sample_request)
     = (500, Inl ''Prediction failed'')"
    unfolding x by simp
  moreover from c r3 have "client_view (predict_risk sample_frames
       (Some (\<lambda>name. Inr (scoring_raises leaking_value_error))) sample_risk_request)
     = (400, Inl ''Invalid input'')"
    unfolding v by simp
  moreover from d r4 have "client_view (predict_batch_endpoint sample_frames
       (Some (\<lambda>name. Inr (batch_raises leaking_exception))) sample_batch_request)
     = (500, Inl ''Prediction failed'')"
    unfolding x by simp
  moreover from a have "(error_view (Raised (Subclass ValueError ''ValidationError'') ''probability'')
      :: nat \<times> (string + unit)) = (400, Inl ''Invalid input'')"
    by simp
  moreover from b have "(error_view (Raised KeyError ''age'') :: nat \<times> (string + unit))
     = (500, Inl ''Prediction failed'')"
    by simp
  ultimately show ?thesis
    by blast
qed

end
